theory Spec2Isabelle
  imports Complex_Main
begin

section \<open>Conventions\<close>

text \<open>
  Python floats are modelled as \<^typ>\<open>real\<close> with exact arithmetic, and Python ints as
  \<^typ>\<open>int\<close>. The one rounding step that a property below depends on, the addition inside
  the float remainder \<^verbatim>\<open>%\<close>, is modelled with its rounding to the nearest double. Every
  \<^verbatim>\<open>raise\<close> of the source is a value \<open>Inl e\<close> of a sum type. Record fields carry
  a short prefix where the source name (\<^verbatim>\<open>x\<close>, \<^verbatim>\<open>y\<close>, \<^verbatim>\<open>z\<close>, \<^verbatim>\<open>status\<close>) would
  otherwise be taken away from the variables of the theory.
\<close>

datatype py_error = ValueError | ZeroDivisionError | RuntimeError

section \<open>Python primitives\<close>

text \<open>\<^verbatim>\<open>int(x)\<close> on a float truncates toward zero.\<close>

definition py_int :: "real \<Rightarrow> int" where
  "py_int v = (if v \<ge> 0 then \<lfloor>v\<rfloor> else \<lceil>v\<rceil>)"

text \<open>
  Rounding of a real to the nearest IEEE double, ties to even: 53 significant bits, with
  the exponent held at \<open>-1022\<close> for subnormal values. Overflow to infinity is not modelled.
\<close>

definition round_even :: "real \<Rightarrow> int" where
  "round_even v =
     (let f = \<lfloor>v\<rfloor>; r = v - of_int f
      in if r < 1 / 2 then f else if r > 1 / 2 then f + 1 else if even f then f else f + 1)"

definition round_double :: "real \<Rightarrow> real" where
  "round_double v =
     (if v = 0 then 0
      else (let e = max \<lfloor>log 2 \<bar>v\<bar>\<rfloor> (- 1022);
                ulp = 2 powr (of_int e - 52)
            in of_int (round_even (v / ulp)) * ulp))"

text \<open>
  \<^verbatim>\<open>a % m\<close> on floats. Python first takes the C remainder \<^verbatim>\<open>fmod(a, m)\<close>, which is exact
  and has the sign of \<open>a\<close>; when that remainder is non-zero and its sign differs from the
  sign of \<open>m\<close>, it adds \<open>m\<close> to it. This addition is a floating-point addition and rounds:
  for a tiny negative remainder the sum rounds to \<open>m\<close> itself, so the result of
  \<^verbatim>\<open>a % 360\<close> can be exactly \<open>360\<close>.
\<close>

definition py_fmod :: "real \<Rightarrow> real \<Rightarrow> real" where
  "py_fmod a m =
     (let r = a - m * of_int (py_int (a / m))
      in if r \<noteq> 0 \<and> (m < 0) \<noteq> (r < 0) then round_double (r + m) else r)"

text \<open>
  \<^verbatim>\<open>xs[start:stop]\<close>: negative bounds count from the end, and both bounds are clipped to
  the list.
\<close>

definition py_slice :: "'a list \<Rightarrow> int \<Rightarrow> int \<Rightarrow> 'a list" where
  "py_slice xs start stop =
     (let n = int (length xs);
          s = (if start < 0 then max (start + n) 0 else min start n);
          e = (if stop < 0 then max (stop + n) 0 else min stop n)
      in take (nat (e - s)) (drop (nat s) xs))"

text \<open>\<^verbatim>\<open>min(xs)\<close> of a list raises \<^verbatim>\<open>ValueError\<close> on the empty list.\<close>

fun py_min :: "real list \<Rightarrow> py_error + real" where
  "py_min [] = Inl ValueError"
| "py_min (v # vs) = Inr (fold min vs v)"

text \<open>\<^verbatim>\<open>math.radians\<close>.\<close>

definition radians :: "real \<Rightarrow> real" where
  "radians deg = deg * pi / 180"

section \<open>core/environment.py\<close>

datatype ObstacleType = BUILDING | TREE | WALL | PILLAR

record Obstacle =
  obs_x :: real
  obs_y :: real
  z_base :: real
  width :: real
  depth :: real
  height :: real
  obstacle_type :: ObstacleType
  is_cylindrical :: bool

text \<open>\<^verbatim>\<open>Obstacle.overlaps_altitude(z, margin=30.0)\<close>; the default is passed explicitly.\<close>

definition overlaps_altitude :: "Obstacle \<Rightarrow> real \<Rightarrow> real \<Rightarrow> bool" where
  "overlaps_altitude ob z margin \<longleftrightarrow>
     (z + margin) \<ge> z_base ob \<and> (z - margin) \<le> (z_base ob + height ob)"

definition EPS :: real where
  "EPS = 1 / 10 ^ 9"

text \<open>The literal \<^verbatim>\<open>1e18\<close> that the box test uses for an axis the ray runs parallel to.\<close>

definition SENTINEL :: real where
  "SENTINEL = 10 ^ 18"

text \<open>
  One axis of \<^verbatim>\<open>_ray_aabb_intersect\<close>: \<open>None\<close> is the early \<^verbatim>\<open>return None\<close>,
  otherwise the pair \<open>(t_min, t_max)\<close> of that axis.
\<close>

definition axis_slab :: "real \<Rightarrow> real \<Rightarrow> real \<Rightarrow> real \<Rightarrow> (real \<times> real) option" where
  "axis_slab lo hi orig d =
     (if \<bar>d\<bar> < EPS then
        (if orig < lo \<or> orig > hi then None else Some (- SENTINEL, SENTINEL))
      else
        (let t1 = (lo - orig) / d; t2 = (hi - orig) / d
         in Some (min t1 t2, max t1 t2)))"

definition ray_aabb_intersect ::
  "Obstacle \<Rightarrow> real \<Rightarrow> real \<Rightarrow> real \<Rightarrow> real \<Rightarrow> real \<Rightarrow> real option" where
  "ray_aabb_intersect ob ox oy dx dy max_range =
     (let half_w = width ob / 2;
          half_d = depth ob / 2;
          x_min = obs_x ob - half_w; x_max = obs_x ob + half_w;
          y_min = obs_y ob - half_d; y_max = obs_y ob + half_d
      in case axis_slab x_min x_max ox dx of
           None \<Rightarrow> None
         | Some (t_min_x, t_max_x) \<Rightarrow>
            (case axis_slab y_min y_max oy dy of
               None \<Rightarrow> None
             | Some (t_min_y, t_max_y) \<Rightarrow>
                (let t_enter = max t_min_x t_min_y;
                     t_exit = min t_max_x t_max_y
                 in if t_enter > t_exit \<or> t_exit < 0 then None
                    else (let t = (if t_enter \<ge> 0 then t_enter else t_exit)
                          in if t > max_range \<or> t < 0 then None else Some t))))"

text \<open>
  \<^verbatim>\<open>_ray_circle_intersect\<close>. The division by \<open>2 * a\<close> raises \<^verbatim>\<open>ZeroDivisionError\<close>
  for a zero direction vector once the discriminant test has passed.
\<close>

definition ray_circle_intersect ::
  "Obstacle \<Rightarrow> real \<Rightarrow> real \<Rightarrow> real \<Rightarrow> real \<Rightarrow> real \<Rightarrow> py_error + real option" where
  "ray_circle_intersect ob ox oy dx dy max_range =
     (let radius = width ob / 2;
          fx = ox - obs_x ob;
          fy = oy - obs_y ob;
          a = dx * dx + dy * dy;
          b = 2 * (fx * dx + fy * dy);
          c = fx * fx + fy * fy - radius * radius;
          discriminant = b * b - 4 * a * c
      in if discriminant < 0 then Inr None
         else if 2 * a = 0 then Inl ZeroDivisionError
         else (let sqrt_disc = sqrt discriminant;
                   t1 = (- b - sqrt_disc) / (2 * a);
                   t2 = (- b + sqrt_disc) / (2 * a);
                   t = (if t1 \<ge> 0 then t1 else t2)
               in if t < 0 \<or> t > max_range then Inr None else Inr (Some t)))"

definition ray_intersect_2d ::
  "Obstacle \<Rightarrow> real \<Rightarrow> real \<Rightarrow> real \<Rightarrow> real \<Rightarrow> real \<Rightarrow> py_error + real option" where
  "ray_intersect_2d ob ox oy dx dy max_range =
     (if is_cylindrical ob then ray_circle_intersect ob ox oy dx dy max_range
      else Inr (ray_aabb_intersect ob ox oy dx dy max_range))"

record Environment =
  obstacles :: "Obstacle list"

text \<open>
  The \<^verbatim>\<open>for obs in self.obstacles\<close> loop of \<^verbatim>\<open>ray_cast\<close>, threading
  \<open>(nearest_dist, nearest_obs)\<close>.
\<close>

fun ray_cast_loop ::
  "Obstacle list \<Rightarrow> real \<Rightarrow> real \<Rightarrow> real \<Rightarrow> real \<Rightarrow> real \<Rightarrow> real \<Rightarrow>
   real \<times> Obstacle option \<Rightarrow> py_error + (real \<times> Obstacle option)" where
  "ray_cast_loop [] ox oy oz dx dy max_range nearest = Inr nearest"
| "ray_cast_loop (ob # rest) ox oy oz dx dy max_range nearest =
     (if \<not> overlaps_altitude ob oz 30 then
        ray_cast_loop rest ox oy oz dx dy max_range nearest
      else
        (case ray_intersect_2d ob ox oy dx dy max_range of
           Inl e \<Rightarrow> Inl e
         | Inr None \<Rightarrow> ray_cast_loop rest ox oy oz dx dy max_range nearest
         | Inr (Some dst) \<Rightarrow>
             (if dst < fst nearest
              then ray_cast_loop rest ox oy oz dx dy max_range (dst, Some ob)
              else ray_cast_loop rest ox oy oz dx dy max_range nearest)))"

definition ray_cast ::
  "Environment \<Rightarrow> real \<Rightarrow> real \<Rightarrow> real \<Rightarrow> real \<Rightarrow> real \<Rightarrow>
   py_error + (real \<times> Obstacle option)" where
  "ray_cast env ox oy oz angle_rad max_range =
     (let dx = cos angle_rad; dy = sin angle_rad
      in ray_cast_loop (obstacles env) ox oy oz dx dy max_range (max_range, None))"

text \<open>The loop of \<^verbatim>\<open>check_collision\<close>, with its early \<^verbatim>\<open>return True\<close>.\<close>

fun check_collision_loop :: "Obstacle list \<Rightarrow> real \<Rightarrow> real \<Rightarrow> real \<Rightarrow> real \<Rightarrow> bool" where
  "check_collision_loop [] px py pz radius = False"
| "check_collision_loop (ob # rest) px py pz radius =
     (if \<not> overlaps_altitude ob pz radius then check_collision_loop rest px py pz radius
      else if is_cylindrical ob then
        (let dst = sqrt ((px - obs_x ob) ^ 2 + (py - obs_y ob) ^ 2)
         in if dst < (width ob / 2 + radius) then True
            else check_collision_loop rest px py pz radius)
      else
        (let half_w = width ob / 2 + radius;
             half_d = depth ob / 2 + radius
         in if \<bar>px - obs_x ob\<bar> < half_w \<and> \<bar>py - obs_y ob\<bar> < half_d then True
            else check_collision_loop rest px py pz radius))"

definition check_collision :: "Environment \<Rightarrow> real \<Rightarrow> real \<Rightarrow> real \<Rightarrow> real \<Rightarrow> bool" where
  "check_collision env px py pz radius = check_collision_loop (obstacles env) px py pz radius"

text \<open>
  Vocabulary for the ray caster's results: obstacle \<open>ob\<close> is \<^emph>\<open>hit\<close> at distance \<open>t\<close> when it
  passes the altitude test of \<^verbatim>\<open>ray_cast\<close> and its 2-D test returns \<open>t\<close>; index \<open>i\<close> is the
  \<^emph>\<open>first hit\<close> at distance \<open>d\<close> when every obstacle inserted before it is hit strictly
  farther away, if at all.
\<close>

definition hit :: "Obstacle \<Rightarrow> real \<Rightarrow> real \<Rightarrow> real \<Rightarrow> real \<Rightarrow> real \<Rightarrow> real \<Rightarrow> real \<Rightarrow> bool" where
  "hit ob ox oy oz dx dy max_range t \<longleftrightarrow>
     overlaps_altitude ob oz 30 \<and> ray_intersect_2d ob ox oy dx dy max_range = Inr (Some t)"

definition first_hit ::
  "Obstacle list \<Rightarrow> real \<Rightarrow> real \<Rightarrow> real \<Rightarrow> real \<Rightarrow> real \<Rightarrow> real \<Rightarrow> real \<Rightarrow> nat \<Rightarrow> bool" where
  "first_hit obs ox oy oz dx dy max_range d i \<longleftrightarrow>
     i < length obs \<and> hit (obs ! i) ox oy oz dx dy max_range d \<and>
     (\<forall>j<i. \<forall>t. hit (obs ! j) ox oy oz dx dy max_range t \<longrightarrow> d < t)"

subsection \<open>The slab method as the specification words it\<close>

text \<open>
  A second definition of the box test, written from the specification's description
  rather than from the source: an axis the ray runs parallel to contributes the interval
  from minus infinity to plus infinity. It is compared with \<open>ray_aabb_intersect\<close> below.
\<close>

datatype ext = MinusInf | Fin real | PlusInf

fun ext_less :: "ext \<Rightarrow> ext \<Rightarrow> bool" where
  "ext_less MinusInf MinusInf = False"
| "ext_less MinusInf (Fin b) = True"
| "ext_less MinusInf PlusInf = True"
| "ext_less (Fin a) MinusInf = False"
| "ext_less (Fin a) (Fin b) = (a < b)"
| "ext_less (Fin a) PlusInf = True"
| "ext_less PlusInf b = False"

definition ext_max :: "ext \<Rightarrow> ext \<Rightarrow> ext" where
  "ext_max a b = (if ext_less a b then b else a)"

definition ext_min :: "ext \<Rightarrow> ext \<Rightarrow> ext" where
  "ext_min a b = (if ext_less b a then b else a)"

definition slab_axis_spec :: "real \<Rightarrow> real \<Rightarrow> real \<Rightarrow> real \<Rightarrow> (ext \<times> ext) option" where
  "slab_axis_spec lo hi orig d =
     (if \<bar>d\<bar> < EPS then
        (if lo \<le> orig \<and> orig \<le> hi then Some (MinusInf, PlusInf) else None)
      else
        (let t1 = (lo - orig) / d; t2 = (hi - orig) / d
         in Some (Fin (min t1 t2), Fin (max t1 t2))))"

definition slab_spec ::
  "Obstacle \<Rightarrow> real \<Rightarrow> real \<Rightarrow> real \<Rightarrow> real \<Rightarrow> real \<Rightarrow> real option" where
  "slab_spec ob ox oy dx dy max_range =
     (case slab_axis_spec (obs_x ob - width ob / 2) (obs_x ob + width ob / 2) ox dx of
        None \<Rightarrow> None
      | Some (t_min_x, t_max_x) \<Rightarrow>
         (case slab_axis_spec (obs_y ob - depth ob / 2) (obs_y ob + depth ob / 2) oy dy of
            None \<Rightarrow> None
          | Some (t_min_y, t_max_y) \<Rightarrow>
             (let t_enter = ext_max t_min_x t_min_y;
                  t_exit = ext_min t_max_x t_max_y
              in if ext_less t_exit t_enter \<or> ext_less t_exit (Fin 0) then None
                 else (let t = (if \<not> ext_less t_enter (Fin 0) then t_enter else t_exit)
                       in if ext_less (Fin max_range) t \<or> ext_less t (Fin 0) then None
                          else (case t of Fin v \<Rightarrow> Some v | _ \<Rightarrow> None)))))"

section \<open>core/drone.py\<close>

record DroneState =
  pos_x :: real
  pos_y :: real
  pos_z :: real
  yaw :: real
  speed :: real
  battery :: real
  is_flying :: bool
  is_connected :: bool
  flight_time :: real
  temperature :: real
  timestamp :: real

text \<open>\<^verbatim>\<open>DroneState()\<close> with its defaults; the wall-clock timestamp is an argument.\<close>

definition DroneState_default :: "real \<Rightarrow> DroneState" where
  "DroneState_default now =
     \<lparr>pos_x = 0, pos_y = 0, pos_z = 0, yaw = 0, speed = 0, battery = 100,
      is_flying = False, is_connected = False, flight_time = 0, temperature = 25,
      timestamp = now\<rparr>"

section \<open>core/simulator.py\<close>

text \<open>
  The simulator object: its \<^verbatim>\<open>_state\<close>, the speed setpoint \<^verbatim>\<open>_speed\<close>, the flag and the
  latched sticks of the RC loop, and \<^verbatim>\<open>_flight_start\<close>. The operations run one at a time,
  each as the source runs it when no other thread interleaves; \<^verbatim>\<open>time.time()\<close> is the
  argument \<open>now\<close>, \<^verbatim>\<open>time.sleep\<close> only contributes its \<^verbatim>\<open>ValueError\<close> on a negative
  length, and the message log is left out.
\<close>

record SimulatedDrone =
  sim_state :: DroneState
  speed_setpoint :: int
  rc_active :: bool
  rc_values :: "int \<times> int \<times> int \<times> int"
  flight_start :: "real option"

definition MOVE_SPEED :: int where "MOVE_SPEED = 50"
definition ROTATE_SPEED :: int where "ROTATE_SPEED = 90"

definition SimulatedDrone_init :: "real \<Rightarrow> SimulatedDrone" where
  "SimulatedDrone_init now =
     \<lparr>sim_state = DroneState_default now, speed_setpoint = MOVE_SPEED, rc_active = False,
      rc_values = (0, 0, 0, 0), flight_start = None\<rparr>"

definition drain_battery :: "real \<Rightarrow> DroneState \<Rightarrow> DroneState" where
  "drain_battery seconds st =
     st\<lparr>battery := max 0 (battery st - seconds * 0.5),
        temperature := min 45 (temperature st + seconds * 0.1)\<rparr>"

definition start_rc_loop :: "SimulatedDrone \<Rightarrow> SimulatedDrone" where
  "start_rc_loop s = (if rc_active s then s else s\<lparr>rc_active := True\<rparr>)"

definition stop_rc_loop :: "SimulatedDrone \<Rightarrow> SimulatedDrone" where
  "stop_rc_loop s = s\<lparr>rc_active := False, rc_values := (0, 0, 0, 0)\<rparr>"

text \<open>The shared tail of \<^verbatim>\<open>land\<close> and \<^verbatim>\<open>emergency_stop\<close>; \<^verbatim>\<open>if self._flight_start\<close> is
  Python truthiness, false for \<^verbatim>\<open>None\<close> and for \<^verbatim>\<open>0.0\<close>.\<close>

definition ground :: "real \<Rightarrow> SimulatedDrone \<Rightarrow> SimulatedDrone" where
  "ground now s =
     (let st = (sim_state s)\<lparr>is_flying := False, pos_z := 0, speed := 0\<rparr>
      in case flight_start s of
           Some t0 \<Rightarrow>
             (if t0 \<noteq> 0
              then s\<lparr>sim_state := st\<lparr>flight_time := flight_time st + (now - t0)\<rparr>,
                     flight_start := None\<rparr>
              else s\<lparr>sim_state := st\<rparr>)
         | None \<Rightarrow> s\<lparr>sim_state := st\<rparr>)"

definition connect :: "SimulatedDrone \<Rightarrow> SimulatedDrone \<times> bool" where
  "connect s =
     (s\<lparr>sim_state := (sim_state s)\<lparr>is_connected := True, battery := 100, temperature := 25\<rparr>\<rparr>,
      True)"

definition emergency_stop :: "real \<Rightarrow> SimulatedDrone \<Rightarrow> SimulatedDrone" where
  "emergency_stop now s = ground now (stop_rc_loop s)"

definition disconnect :: "real \<Rightarrow> SimulatedDrone \<Rightarrow> SimulatedDrone" where
  "disconnect now s =
     (let s1 = emergency_stop now s
      in s1\<lparr>sim_state := (sim_state s1)\<lparr>is_connected := False\<rparr>\<rparr>)"

definition takeoff :: "real \<Rightarrow> SimulatedDrone \<Rightarrow> SimulatedDrone \<times> bool" where
  "takeoff now s =
     (if \<not> is_connected (sim_state s) \<or> is_flying (sim_state s) then (s, False)
      else (start_rc_loop
              (s\<lparr>sim_state := (sim_state s)\<lparr>is_flying := True, pos_z := 80\<rparr>,
                 flight_start := Some now\<rparr>),
            True))"

definition land :: "real \<Rightarrow> SimulatedDrone \<Rightarrow> SimulatedDrone \<times> bool" where
  "land now s =
     (let s1 = stop_rc_loop s
      in if \<not> is_flying (sim_state s1) then (s1, False)
         else (ground now s1, True))"

text \<open>The \<^verbatim>\<open>if\<close>/\<^verbatim>\<open>elif\<close> chain of \<^verbatim>\<open>move\<close>: the displacement, or \<open>None\<close> for the final
  \<^verbatim>\<open>return False\<close>.\<close>

definition move_delta :: "string \<Rightarrow> int \<Rightarrow> real \<Rightarrow> (real \<times> real \<times> real) option" where
  "move_delta direction distance_cm rad =
     (if direction = ''forward'' then
        Some (of_int distance_cm * cos rad, of_int distance_cm * sin rad, 0)
      else if direction = ''back'' then
        Some (- of_int distance_cm * cos rad, - of_int distance_cm * sin rad, 0)
      else if direction = ''left'' then
        Some (of_int distance_cm * sin rad, - of_int distance_cm * cos rad, 0)
      else if direction = ''right'' then
        Some (- of_int distance_cm * sin rad, of_int distance_cm * cos rad, 0)
      else if direction = ''up'' then Some (0, 0, of_int distance_cm)
      else if direction = ''down'' then Some (0, 0, - of_int distance_cm)
      else None)"

definition move :: "string \<Rightarrow> int \<Rightarrow> SimulatedDrone \<Rightarrow> SimulatedDrone \<times> (py_error + bool)" where
  "move direction distance_cm s =
     (if \<not> is_flying (sim_state s) then (s, Inr False)
      else case move_delta direction distance_cm (radians (yaw (sim_state s))) of
             None \<Rightarrow> (s, Inr False)
           | Some (dx, dy, dz) \<Rightarrow>
               (if speed_setpoint s = 0 then (s, Inl ZeroDivisionError)
                else (let duration = of_int distance_cm / of_int (speed_setpoint s)
                      in if min duration 2 < 0 then (s, Inl ValueError)
                         else (let st = sim_state s;
                                   st1 = st\<lparr>pos_x := pos_x st + dx, pos_y := pos_y st + dy,
                                            pos_z := max 0 (pos_z st + dz)\<rparr>
                               in (s\<lparr>sim_state := drain_battery duration st1\<rparr>, Inr True)))))"

definition rotate :: "int \<Rightarrow> SimulatedDrone \<Rightarrow> SimulatedDrone \<times> bool" where
  "rotate degrees s =
     (if \<not> is_flying (sim_state s) then (s, False)
      else (s\<lparr>sim_state := (sim_state s)
                 \<lparr>yaw := py_fmod (yaw (sim_state s) + of_int degrees) 360\<rparr>\<rparr>,
            True))"

definition set_speed :: "int \<Rightarrow> SimulatedDrone \<Rightarrow> SimulatedDrone \<times> bool" where
  "set_speed speed_cm_s s = (s\<lparr>speed_setpoint := max 10 (min 100 speed_cm_s)\<rparr>, True)"

definition send_rc :: "int \<Rightarrow> int \<Rightarrow> int \<Rightarrow> int \<Rightarrow> SimulatedDrone \<Rightarrow> SimulatedDrone" where
  "send_rc left_right forward_back up_down yaw_rate s =
     s\<lparr>rc_values := (max (- 100) (min 100 left_right), max (- 100) (min 100 forward_back),
                     max (- 100) (min 100 up_down), max (- 100) (min 100 yaw_rate))\<rparr>"

text \<open>One iteration \<open>i\<close> of the interpolation loop of \<^verbatim>\<open>go_to\<close>.\<close>

definition go_to_step ::
  "real \<times> real \<times> real \<Rightarrow> int \<times> int \<times> int \<Rightarrow> int \<Rightarrow> int \<Rightarrow> real \<Rightarrow> int \<Rightarrow>
   DroneState \<Rightarrow> DroneState" where
  "go_to_step start target spd steps dt i st =
     (case (start, target) of
        ((sx, sy, sz), (tx, ty, tz)) \<Rightarrow>
          (let frac = of_int i / of_int steps
           in drain_battery dt
                (st\<lparr>pos_x := sx + (of_int tx - sx) * frac,
                    pos_y := sy + (of_int ty - sy) * frac,
                    pos_z := max 0 (sz + (of_int tz - sz) * frac),
                    speed := of_int spd\<rparr>)))"

definition go_to ::
  "int \<Rightarrow> int \<Rightarrow> int \<Rightarrow> int \<Rightarrow> SimulatedDrone \<Rightarrow> SimulatedDrone \<times> bool" where
  "go_to tx ty tz spd s =
     (if \<not> is_flying (sim_state s) then (s, False)
      else (let sx = pos_x (sim_state s); sy = pos_y (sim_state s); sz = pos_z (sim_state s);
                dst = sqrt ((of_int tx - sx) ^ 2 + (of_int ty - sy) ^ 2 + (of_int tz - sz) ^ 2)
            in if dst < 1 then (s, True)
               else (let duration = dst / of_int (max spd 10);
                         steps = max (py_int (duration * 10)) 1;
                         dt = duration / of_int steps
                     in (s\<lparr>sim_state :=
                            fold (go_to_step (sx, sy, sz) (tx, ty, tz) spd steps dt)
                              [1..steps] (sim_state s)\<rparr>,
                         True))))"

text \<open>
  One pass through the body of the \<^verbatim>\<open>while self._rc_active\<close> loop of \<^verbatim>\<open>_rc_loop\<close>:
  \<open>None\<close> when the loop ends (the flag is down, or the \<^verbatim>\<open>break\<close> for a drone that is not
  flying), otherwise the simulator after the tick.
\<close>

definition rc_interval :: real where
  "rc_interval = 0.05"

definition rc_tick :: "SimulatedDrone \<Rightarrow> SimulatedDrone option" where
  "rc_tick s =
     (if \<not> rc_active s then None
      else case rc_values s of
        (lr, fb, ud, yaw_rate) \<Rightarrow>
          (if \<not> is_flying (sim_state s) then None
           else (let st = sim_state s;
                     rad = radians (yaw st);
                     scale = of_int (speed_setpoint s) * rc_interval / 100;
                     st1 = st\<lparr>pos_x := pos_x st
                                 + (of_int fb * cos rad - of_int lr * sin rad) * scale\<rparr>;
                     st2 = st1\<lparr>pos_y := pos_y st1
                                 + (of_int fb * sin rad + of_int lr * cos rad) * scale\<rparr>;
                     st3 = st2\<lparr>pos_z := max 0 (pos_z st2 + of_int ud * scale)\<rparr>;
                     st4 = st3\<lparr>yaw := py_fmod (yaw st3 + of_int yaw_rate * 0.9 * rc_interval) 360\<rparr>;
                     st5 = st4\<lparr>speed := sqrt (of_int (lr ^ 2 + fb ^ 2 + ud ^ 2))
                                           * of_int (speed_setpoint s) / 100\<rparr>
                 in Some (s\<lparr>sim_state := drain_battery rc_interval st5\<rparr>))))"

text \<open>The operations of the backend as one command type, and the state each leaves.\<close>

datatype sim_op =
    Connect
  | Disconnect real
  | Takeoff real
  | Land real
  | EmergencyStop real
  | Move string int
  | Rotate int
  | SetSpeed int
  | SendRc int int int int
  | GoTo int int int int
  | RcTick

fun sim_exec :: "sim_op \<Rightarrow> SimulatedDrone \<Rightarrow> SimulatedDrone" where
  "sim_exec Connect s = fst (connect s)"
| "sim_exec (Disconnect now) s = disconnect now s"
| "sim_exec (Takeoff now) s = fst (takeoff now s)"
| "sim_exec (Land now) s = fst (land now s)"
| "sim_exec (EmergencyStop now) s = emergency_stop now s"
| "sim_exec (Move direction distance_cm) s = fst (move direction distance_cm s)"
| "sim_exec (Rotate degrees) s = fst (rotate degrees s)"
| "sim_exec (SetSpeed v) s = fst (set_speed v s)"
| "sim_exec (SendRc lr fb ud yaw_rate) s = send_rc lr fb ud yaw_rate s"
| "sim_exec (GoTo tx ty tz spd) s = fst (go_to tx ty tz spd s)"
| "sim_exec RcTick s = (case rc_tick s of None \<Rightarrow> s | Some s' \<Rightarrow> s')"

text \<open>The state invariant of the specification.\<close>

definition state_inv :: "DroneState \<Rightarrow> bool" where
  "state_inv st \<longleftrightarrow>
     0 \<le> battery st \<and> battery st \<le> 100 \<and> pos_z st \<ge> 0 \<and>
     0 \<le> yaw st \<and> yaw st < 360 \<and> temperature st \<le> 45 \<and>
     (is_flying st \<longrightarrow> is_connected st)"

text \<open>The same conditions with the upper end of the yaw range included.\<close>

definition state_inv_closed :: "DroneState \<Rightarrow> bool" where
  "state_inv_closed st \<longleftrightarrow>
     0 \<le> battery st \<and> battery st \<le> 100 \<and> pos_z st \<ge> 0 \<and>
     0 \<le> yaw st \<and> yaw st \<le> 360 \<and> temperature st \<le> 45 \<and>
     (is_flying st \<longrightarrow> is_connected st)"

section \<open>autopilot/flight\_plan.py\<close>

datatype WaypointStatus = PENDING | ACTIVE | REACHED | SKIPPED

record Waypoint =
  wp_x :: int
  wp_y :: int
  wp_z :: int
  wp_speed :: int
  hover_time :: real
  action :: "string option"
  wp_status :: WaypointStatus

datatype FlightPlanStatus = IDLE | RUNNING | PAUSED | COMPLETED | ABORTED

record FlightPlan =
  name :: string
  waypoints :: "Waypoint list"
  loop :: bool
  plan_status :: FlightPlanStatus
  current_index :: int

text \<open>The executor: the loaded plan (\<^verbatim>\<open>None\<close> before the first load) and the stop event.\<close>

record Autopilot =
  plan :: "FlightPlan option"
  stop_event :: bool

definition Autopilot_init :: Autopilot where
  "Autopilot_init = \<lparr>plan = None, stop_event = False\<rparr>"

text \<open>
  \<^verbatim>\<open>Autopilot.load_plan\<close>. The result pairs the executor after the call with the exception
  raised, if any. A \<^verbatim>\<open>FlightPlan\<close> object is always truthy, so \<^verbatim>\<open>if self._plan and ...\<close>
  only asks whether a plan is loaded.
\<close>

definition load_plan :: "Autopilot \<Rightarrow> FlightPlan \<Rightarrow> Autopilot \<times> py_error option" where
  "load_plan ap p =
     (if (case plan ap of None \<Rightarrow> False | Some cur \<Rightarrow> plan_status cur = RUNNING)
      then (ap, Some RuntimeError)
      else (ap\<lparr>plan := Some (p\<lparr>plan_status := IDLE, current_index := 0,
                                 waypoints := map (\<lambda>wp. wp\<lparr>wp_status := PENDING\<rparr>) (waypoints p)\<rparr>)\<rparr>,
            None))"

section \<open>core/camera.py and autopilot/obstacle\_avoidance.py\<close>

record CameraFrame =
  depths :: "real list"
  obstacle_types :: "string list"
  obstacle_heights :: "real list"
  fov_h :: real
  num_rays :: int
  frame_max_range :: real
  drone_yaw :: real
  drone_z :: real
  frame_timestamp :: real

definition SAFETY_DISTANCE :: real where "SAFETY_DISTANCE = 100"
definition CRITICAL_DISTANCE :: real where "CRITICAL_DISTANCE = 50"
definition CRUISE_SPEED :: int where "CRUISE_SPEED = 45"

text \<open>The bounds \<open>(start, end)\<close> of zone \<open>z\<close> and the slice \<^verbatim>\<open>depths[start:end]\<close>.\<close>

definition zone_bounds :: "int \<Rightarrow> int \<Rightarrow> int \<times> int" where
  "zone_bounds n z =
     (let zone_size = n div 5;
          start = z * zone_size
      in (start, if z < 4 then start + zone_size else n))"

definition zone_depths :: "real list \<Rightarrow> int \<Rightarrow> int \<Rightarrow> real list" where
  "zone_depths ds n z = (case zone_bounds n z of (start, stop) \<Rightarrow> py_slice ds start stop)"

text \<open>The loop \<^verbatim>\<open>for z in range(5): ... zones.append(min(zone_depths))\<close>; it stops at the
  first zone whose \<^verbatim>\<open>min\<close> raises.\<close>

fun zones_loop :: "real list \<Rightarrow> int \<Rightarrow> int list \<Rightarrow> py_error + real list" where
  "zones_loop ds n [] = Inr []"
| "zones_loop ds n (z # zs) =
     (case py_min (zone_depths ds n z) of
        Inl e \<Rightarrow> Inl e
      | Inr m \<Rightarrow> (case zones_loop ds n zs of Inl e \<Rightarrow> Inl e | Inr ms \<Rightarrow> Inr (m # ms)))"

definition compute_zones :: "CameraFrame \<Rightarrow> py_error + real list" where
  "compute_zones frame = zones_loop (depths frame) (num_rays frame) [0, 1, 2, 3, 4]"

definition heading_error :: "real \<Rightarrow> real \<Rightarrow> real" where
  "heading_error goal_bearing yaw_deg = py_fmod (goal_bearing - yaw_deg + 180) 360 - 180"

text \<open>
  \<^verbatim>\<open>_compute_commands\<close>: the tuple \<open>(yaw_cmd, fwd_cmd, alt_cmd)\<close> it returns, together with
  the label it stores in \<^verbatim>\<open>self._avoidance_action\<close>.
\<close>

definition compute_commands ::
  "CameraFrame \<Rightarrow> DroneState \<Rightarrow> real \<Rightarrow> real \<Rightarrow> py_error + ((int \<times> int \<times> int) \<times> string)" where
  "compute_commands frame st goal_bearing goal_alt =
     (case compute_zones frame of
        Inl e \<Rightarrow> Inl e
      | Inr zones \<Rightarrow>
         (let center_clear = zones ! 2;
              left_clear = min (zones ! 0) (zones ! 1);
              right_clear = min (zones ! 3) (zones ! 4);
              best_left = max (zones ! 0) (zones ! 1);
              best_right = max (zones ! 3) (zones ! 4);
              h_err = heading_error goal_bearing (yaw st);
              alt_error = goal_alt - pos_z st;
              alt_cmd = py_int (max (- 30) (min 30 (alt_error * 0.5)));
              yaw_cmd = py_int (max (- 60) (min 60 (h_err * 0.8)));
              fwd_cmd = CRUISE_SPEED
          in if center_clear < CRITICAL_DISTANCE then
               Inr ((if best_left > best_right then - 70 else 70, - 20, alt_cmd), ''critical'')
             else if center_clear < SAFETY_DISTANCE then
               (let ratio = center_clear / SAFETY_DISTANCE;
                    fwd_cmd = max 10 (py_int (of_int CRUISE_SPEED * ratio));
                    yaw_cmd =
                      (if h_err < 0 then
                         (if best_left > CRITICAL_DISTANCE then - 50
                          else if best_right > CRITICAL_DISTANCE then 50
                          else (if best_left \<ge> best_right then - 50 else 50))
                       else
                         (if best_right > CRITICAL_DISTANCE then 50
                          else if best_left > CRITICAL_DISTANCE then - 50
                          else (if best_right \<ge> best_left then 50 else - 50)))
                in Inr ((yaw_cmd, fwd_cmd, alt_cmd), ''avoiding''))
             else
               (let yaw_cmd = (if zones ! 0 < SAFETY_DISTANCE * 0.6 then max yaw_cmd 15 else yaw_cmd);
                    yaw_cmd = (if zones ! 4 < SAFETY_DISTANCE * 0.6 then min yaw_cmd (- 15) else yaw_cmd)
                in Inr ((yaw_cmd, fwd_cmd, alt_cmd), ''clear''))))"

text \<open>
  The command a navigation tick emits: \<^verbatim>\<open>_nav_loop\<close> calls
  \<^verbatim>\<open>send_rc(0, fwd_cmd, alt_cmd, yaw_cmd)\<close> with the result of \<^verbatim>\<open>_compute_commands\<close>. The
  tuple is in the argument order of \<^verbatim>\<open>send_rc\<close>: left/right, forward/back, up/down, yaw.
\<close>

definition nav_rc_command ::
  "CameraFrame \<Rightarrow> DroneState \<Rightarrow> real \<Rightarrow> real \<Rightarrow> py_error + (int \<times> int \<times> int \<times> int)" where
  "nav_rc_command frame st goal_bearing goal_alt =
     (case compute_commands frame st goal_bearing goal_alt of
        Inl e \<Rightarrow> Inl e
      | Inr ((yaw_cmd, fwd_cmd, alt_cmd), label) \<Rightarrow> Inr (0, fwd_cmd, alt_cmd, yaw_cmd))"

text \<open>
  The pure goal-seeking commands in the words of the specification, before any
  conversion to an integer stick value: \<open>clamp(heading_error \<sqdot> 0.8, -60, 60)\<close> and
  \<open>clamp((goal_z - z) \<sqdot> 0.5, -30, 30)\<close>.
\<close>

definition spec_yaw_cmd :: "real \<Rightarrow> real \<Rightarrow> real" where
  "spec_yaw_cmd goal_bearing yaw_deg = max (- 60) (min 60 (heading_error goal_bearing yaw_deg * 0.8))"

definition spec_alt_cmd :: "real \<Rightarrow> real \<Rightarrow> real" where
  "spec_alt_cmd goal_z z = max (- 30) (min 30 ((goal_z - z) * 0.5))"

section \<open>Concrete scenes and frames used as test inputs\<close>

definition box_a :: Obstacle where
  "box_a = \<lparr>obs_x = 11, obs_y = 0, z_base = 0, width = 2, depth = 2, height = 100,
            obstacle_type = WALL, is_cylindrical = False\<rparr>"

definition box_b :: Obstacle where
  "box_b = \<lparr>obs_x = 12, obs_y = 0, z_base = 0, width = 4, depth = 2, height = 100,
            obstacle_type = BUILDING, is_cylindrical = False\<rparr>"

definition tall_box :: Obstacle where
  "tall_box = \<lparr>obs_x = 50, obs_y = 0, z_base = 0, width = 20, depth = 20, height = 100,
               obstacle_type = BUILDING, is_cylindrical = False\<rparr>"

definition thin_wall :: Obstacle where
  "thin_wall = \<lparr>obs_x = 0, obs_y = 380, z_base = 0, width = 300, depth = 0, height = 150,
                obstacle_type = WALL, is_cylindrical = False\<rparr>"

definition far_box :: Obstacle where
  "far_box = \<lparr>obs_x = 0, obs_y = 3 * 10 ^ 18, z_base = 0, width = 2, depth = 2 * 10 ^ 18,
              height = 100, obstacle_type = BUILDING, is_cylindrical = False\<rparr>"

definition around_origin :: Obstacle where
  "around_origin = \<lparr>obs_x = 0, obs_y = 0, z_base = 0, width = 20, depth = 40, height = 100,
                    obstacle_type = BUILDING, is_cylindrical = False\<rparr>"

text \<open>A frame of 48 rays (the default of the camera) and one of 5 rays, both with nothing in
  sight, and one of 3 rays.\<close>

definition frame48 :: CameraFrame where
  "frame48 = \<lparr>depths = replicate 48 500, obstacle_types = replicate 48 [],
               obstacle_heights = replicate 48 0, fov_h = 70, num_rays = 48,
               frame_max_range = 500, drone_yaw = 0, drone_z = 80, frame_timestamp = 0\<rparr>"

definition frame5 :: CameraFrame where
  "frame5 = \<lparr>depths = [500, 500, 500, 500, 500], obstacle_types = [[], [], [], [], []],
              obstacle_heights = [0, 0, 0, 0, 0], fov_h = 70, num_rays = 5,
              frame_max_range = 500, drone_yaw = 0, drone_z = 80, frame_timestamp = 0\<rparr>"

definition frame3 :: CameraFrame where
  "frame3 = \<lparr>depths = [500, 500, 500], obstacle_types = [[], [], []],
              obstacle_heights = [0, 0, 0], fov_h = 70, num_rays = 3,
              frame_max_range = 500, drone_yaw = 0, drone_z = 80, frame_timestamp = 0\<rparr>"

text \<open>A drone hovering at the origin after take-off, heading along the x axis.\<close>

definition hovering :: DroneState where
  "hovering = \<lparr>pos_x = 0, pos_y = 0, pos_z = 80, yaw = 0, speed = 0, battery = 100,
                is_flying = True, is_connected = True, flight_time = 0, temperature = 25,
                timestamp = 0\<rparr>"

text \<open>The simulator in flight with the forward stick at 50 and the yaw stick at 10.\<close>

definition flying_sim :: SimulatedDrone where
  "flying_sim = \<lparr>sim_state = hovering, speed_setpoint = 50, rc_active = True,
                  rc_values = (0, 50, 0, 10), flight_start = Some 1\<rparr>"

text \<open>
  The simulator in flight with a heading just below 9 degrees: \<open>9 - 2\<^sup>-\<^sup>4\<^sup>7\<close>, which is a
  double (printed by Python as \<^verbatim>\<open>8.999999999999993\<close>).
\<close>

definition almost_nine_sim :: SimulatedDrone where
  "almost_nine_sim =
     \<lparr>sim_state = hovering\<lparr>yaw := 9 - 1 / 2 ^ 47\<rparr>, speed_setpoint = 50, rc_active = True,
      rc_values = (0, 0, 0, 0), flight_start = Some 1\<rparr>"

text \<open>A square mission that was flown before: its status and waypoint marks are stale.\<close>

definition used_plan :: FlightPlan where
  "used_plan = \<lparr>name = ''Square'',
     waypoints =
       [\<lparr>wp_x = 100, wp_y = 100, wp_z = 100, wp_speed = 40, hover_time = 1, action = None,
         wp_status = REACHED\<rparr>,
        \<lparr>wp_x = - 100, wp_y = 100, wp_z = 100, wp_speed = 40, hover_time = 1, action = None,
         wp_status = SKIPPED\<rparr>],
     loop = False, plan_status = ABORTED, current_index = 2\<rparr>"

definition running_autopilot :: Autopilot where
  "running_autopilot = \<lparr>plan = Some (used_plan\<lparr>plan_status := RUNNING\<rparr>), stop_event = False\<rparr>"

section \<open>The ray caster\<close>


lemma ray_intersect_2d_bounds:
  "ray_intersect_2d ob ox oy dx dy mr = Inr (Some t) \<Longrightarrow> 0 \<le> t \<and> t \<le> mr"
  by (auto simp: ray_intersect_2d_def ray_circle_intersect_def ray_aabb_intersect_def Let_def
      split: if_splits option.splits prod.splits)

lemma ray_intersect_2d_total:
  assumes "dx * dx + dy * dy \<noteq> 0"
  shows "\<exists>r. ray_intersect_2d ob ox oy dx dy mr = Inr r"
proof -
  have two: "\<And>a::real. a \<noteq> 0 \<Longrightarrow> 2 * a \<noteq> 0" by simp
  from two [OF assms] have "2 * (dx * dx + dy * dy) \<noteq> 0" .
  then show ?thesis
    unfolding ray_intersect_2d_def ray_circle_intersect_def Let_def by auto
qed

lemma ray_cast_loop_total:
  "dx * dx + dy * dy \<noteq> 0 \<Longrightarrow> \<exists>r. ray_cast_loop obs ox oy oz dx dy mr acc = Inr r"
proof (induction obs arbitrary: acc)
  case Nil
  then show ?case by simp
next
  case (Cons ob rest)
  from Cons.prems obtain h where h: "ray_intersect_2d ob ox oy dx dy mr = Inr h"
    using ray_intersect_2d_total by blast
  show ?case
    using Cons.IH [OF Cons.prems] h by (cases h) auto
qed

lemma hit_fun: "hit ob ox oy oz dx dy mr t \<Longrightarrow> hit ob ox oy oz dx dy mr t' \<Longrightarrow> t = t'"
  by (simp add: hit_def)

lemma ray_cast_loop_cases:
  assumes "ray_cast_loop (ob # rest) ox oy oz dx dy mr (nd, no) = Inr (d, r)"
  obtains
      (skip) "\<And>t. \<not> hit ob ox oy oz dx dy mr t"
        "ray_cast_loop rest ox oy oz dx dy mr (nd, no) = Inr (d, r)"
    | (closer) dst where "hit ob ox oy oz dx dy mr dst" "dst < nd"
        "ray_cast_loop rest ox oy oz dx dy mr (dst, Some ob) = Inr (d, r)"
    | (farther) dst where "hit ob ox oy oz dx dy mr dst" "nd \<le> dst"
        "ray_cast_loop rest ox oy oz dx dy mr (nd, no) = Inr (d, r)"
proof (cases "overlaps_altitude ob oz 30")
  case False
  with assms skip show ?thesis by (simp add: hit_def)
next
  case True
  show ?thesis
  proof (cases "ray_intersect_2d ob ox oy dx dy mr")
    case (Inl e)
    with assms True show ?thesis by simp
  next
    case (Inr h)
    show ?thesis
    proof (cases h)
      case None
      with assms True Inr skip show ?thesis by (simp add: hit_def)
    next
      case (Some dst)
      with True Inr have h: "hit ob ox oy oz dx dy mr dst" by (simp add: hit_def)
      show ?thesis
      proof (cases "dst < nd")
        case True
        with assms h Some Inr closer [of dst] show ?thesis by (simp add: hit_def)
      next
        case False
        with assms h Some Inr farther [of dst] show ?thesis by (simp add: hit_def)
      qed
    qed
  qed
qed

lemma ray_cast_loop_lower:
  "ray_cast_loop obs ox oy oz dx dy mr (nd, no) = Inr (d, r) \<Longrightarrow>
     d \<le> nd \<and> (\<forall>ob\<in>set obs. \<forall>t. hit ob ox oy oz dx dy mr t \<longrightarrow> d \<le> t)"
proof (induction obs arbitrary: nd no)
  case Nil
  then show ?case by simp
next
  case (Cons ob rest)
  from Cons.prems show ?case
  proof (cases rule: ray_cast_loop_cases)
    case skip
    from Cons.IH [OF skip(2)] skip(1) show ?thesis by auto
  next
    case (closer dst)
    from Cons.IH [OF closer(3)] closer(2) hit_fun [OF closer(1)] show ?thesis by auto
  next
    case (farther dst)
    from Cons.IH [OF farther(3)] farther(2) hit_fun [OF farther(1)] show ?thesis by auto
  qed
qed

lemma first_hit_0: "hit ob ox oy oz dx dy mr d \<Longrightarrow> first_hit (ob # rest) ox oy oz dx dy mr d 0"
  by (simp add: first_hit_def)

lemma first_hit_Suc:
  "first_hit rest ox oy oz dx dy mr d i \<Longrightarrow> (\<And>t. hit ob ox oy oz dx dy mr t \<Longrightarrow> d < t) \<Longrightarrow>
   first_hit (ob # rest) ox oy oz dx dy mr d (Suc i)"
  by (simp add: first_hit_def All_less_Suc2)

lemma ray_cast_loop_first:
  "ray_cast_loop obs ox oy oz dx dy mr (nd, no) = Inr (d, r) \<Longrightarrow>
     (d, r) = (nd, no) \<or>
     (d < nd \<and> (\<exists>i. first_hit obs ox oy oz dx dy mr d i \<and> r = Some (obs ! i)))"
proof (induction obs arbitrary: nd no)
  case Nil
  then show ?case by simp
next
  case (Cons ob rest)
  from Cons.prems show ?case
  proof (cases rule: ray_cast_loop_cases)
    case skip
    from Cons.IH [OF skip(2)] show ?thesis
    proof
      assume "(d, r) = (nd, no)"
      then show ?thesis by simp
    next
      assume "d < nd \<and> (\<exists>i. first_hit rest ox oy oz dx dy mr d i \<and> r = Some (rest ! i))"
      then obtain i where i: "d < nd" "first_hit rest ox oy oz dx dy mr d i" "r = Some (rest ! i)"
        by blast
      from first_hit_Suc [OF i(2), of ob] skip(1)
      have "first_hit (ob # rest) ox oy oz dx dy mr d (Suc i)" by blast
      with i show ?thesis by auto
    qed
  next
    case (closer dst)
    from Cons.IH [OF closer(3)] show ?thesis
    proof
      assume "(d, r) = (dst, Some ob)"
      with closer first_hit_0 [of ob ox oy oz dx dy mr dst rest] show ?thesis by auto
    next
      assume "d < dst \<and> (\<exists>i. first_hit rest ox oy oz dx dy mr d i \<and> r = Some (rest ! i))"
      then obtain i where i: "d < dst" "first_hit rest ox oy oz dx dy mr d i" "r = Some (rest ! i)"
        by blast
      have "\<And>t. hit ob ox oy oz dx dy mr t \<Longrightarrow> d < t"
        using hit_fun [OF closer(1)] i(1) by blast
      from first_hit_Suc [OF i(2) this]
      have "first_hit (ob # rest) ox oy oz dx dy mr d (Suc i)" by blast
      with i closer(2) show ?thesis by auto
    qed
  next
    case (farther dst)
    from Cons.IH [OF farther(3)] show ?thesis
    proof
      assume "(d, r) = (nd, no)"
      then show ?thesis by simp
    next
      assume "d < nd \<and> (\<exists>i. first_hit rest ox oy oz dx dy mr d i \<and> r = Some (rest ! i))"
      then obtain i where i: "d < nd" "first_hit rest ox oy oz dx dy mr d i" "r = Some (rest ! i)"
        by blast
      have "\<And>t. hit ob ox oy oz dx dy mr t \<Longrightarrow> d < t"
        using hit_fun [OF farther(1)] i(1) farther(2) by force
      from first_hit_Suc [OF i(2) this]
      have "first_hit (ob # rest) ox oy oz dx dy mr d (Suc i)" by blast
      with i show ?thesis by auto
    qed
  qed
qed


lemma cos_sin_nonzero: "cos (a::real) * cos a + sin a * sin a \<noteq> 0"
proof -
  have "cos a * cos a + sin a * sin a = 1"
    using sin_cos_squared_add2 [of a] by (simp add: power2_eq_square)
  then show ?thesis by simp
qed

lemma hit_box_a: "hit box_a 0 0 0 (cos 0) (sin 0) 10 10"
  by (simp add: hit_def overlaps_altitude_def ray_intersect_2d_def ray_aabb_intersect_def
      axis_slab_def EPS_def SENTINEL_def box_a_def Let_def)

lemma hit_box_b: "hit box_b 0 0 0 (cos 0) (sin 0) 10 10"
  by (simp add: hit_def overlaps_altitude_def ray_intersect_2d_def ray_aabb_intersect_def
      axis_slab_def EPS_def SENTINEL_def box_b_def Let_def)

lemma hit_box_a_20: "hit box_a 0 0 0 (cos 0) (sin 0) 20 10"
  by (simp add: hit_def overlaps_altitude_def ray_intersect_2d_def ray_aabb_intersect_def
      axis_slab_def EPS_def SENTINEL_def box_a_def Let_def)

lemma hit_box_b_20: "hit box_b 0 0 0 (cos 0) (sin 0) 20 10"
  by (simp add: hit_def overlaps_altitude_def ray_intersect_2d_def ray_aabb_intersect_def
      axis_slab_def EPS_def SENTINEL_def box_b_def Let_def)

text \<open>
  Claim C1, as the code has it. \<^verbatim>\<open>ray_cast\<close> never raises and returns \<open>(d, r)\<close> where \<open>d\<close>
  is at most the distance of every hit (an obstacle that passes the altitude test and
  whose 2-D test returns a distance, which is then at most \<open>max_range\<close>). If an obstacle
  is returned, then \<open>d\<close> is strictly below \<open>max_range\<close>, the obstacle overlaps the query
  altitude, it is hit at exactly \<open>d\<close>, and every obstacle inserted before it is hit
  strictly farther away or not at all: ties go to the first inserted. If none is returned,
  then \<open>d = max_range\<close> and no hit lies strictly below \<open>max_range\<close>; in particular the
  result is \<open>(max_range, None)\<close> when nothing is hit. An obstacle hit at exactly
  \<open>max_range\<close> is therefore never returned.
\<close>

theorem ray_cast_nearest_hit:
  "\<exists>d r. ray_cast env ox oy oz a mr = Inr (d, r) \<and>
     (\<forall>ob\<in>set (obstacles env). \<forall>t. hit ob ox oy oz (cos a) (sin a) mr t \<longrightarrow> d \<le> t \<and> t \<le> mr) \<and>
     (case r of
        None \<Rightarrow> d = mr \<and>
          (\<forall>ob\<in>set (obstacles env). \<forall>t. hit ob ox oy oz (cos a) (sin a) mr t \<longrightarrow> t = mr)
      | Some ob \<Rightarrow> d < mr \<and> overlaps_altitude ob oz 30 \<and>
          (\<exists>i. first_hit (obstacles env) ox oy oz (cos a) (sin a) mr d i \<and>
               obstacles env ! i = ob))"
proof -
  have "\<exists>res. ray_cast_loop (obstacles env) ox oy oz (cos a) (sin a) mr (mr, None) = Inr res"
    by (rule ray_cast_loop_total [OF cos_sin_nonzero])
  then obtain d r where dr:
    "ray_cast_loop (obstacles env) ox oy oz (cos a) (sin a) mr (mr, None) = Inr (d, r)"
    by auto
  then have rc: "ray_cast env ox oy oz a mr = Inr (d, r)"
    by (simp add: ray_cast_def)
  have bound: "\<And>ob t. hit ob ox oy oz (cos a) (sin a) mr t \<Longrightarrow> t \<le> mr"
    using ray_intersect_2d_bounds by (auto simp: hit_def)
  from ray_cast_loop_lower [OF dr]
  have low: "\<And>ob t. ob \<in> set (obstacles env) \<Longrightarrow> hit ob ox oy oz (cos a) (sin a) mr t \<Longrightarrow> d \<le> t"
    by blast
  have res: "case r of
        None \<Rightarrow> d = mr \<and>
          (\<forall>ob\<in>set (obstacles env). \<forall>t. hit ob ox oy oz (cos a) (sin a) mr t \<longrightarrow> t = mr)
      | Some ob \<Rightarrow> d < mr \<and> overlaps_altitude ob oz 30 \<and>
          (\<exists>i. first_hit (obstacles env) ox oy oz (cos a) (sin a) mr d i \<and>
               obstacles env ! i = ob)"
    using ray_cast_loop_first [OF dr]
  proof
    assume "(d, r) = (mr, None)"
    then have "d = mr" "r = None" by simp_all
    moreover have "t = mr"
      if "ob \<in> set (obstacles env)" "hit ob ox oy oz (cos a) (sin a) mr t" for ob t
      using low [OF that] bound [OF that(2)] \<open>d = mr\<close> by simp
    ultimately show ?thesis by simp
  next
    assume "d < mr \<and> (\<exists>i. first_hit (obstacles env) ox oy oz (cos a) (sin a) mr d i \<and>
      r = Some (obstacles env ! i))"
    then obtain i where i: "d < mr" "first_hit (obstacles env) ox oy oz (cos a) (sin a) mr d i"
      "r = Some (obstacles env ! i)" by blast
    from i(2) have "overlaps_altitude (obstacles env ! i) oz 30"
      by (simp add: first_hit_def hit_def)
    with i show ?thesis by auto
  qed
  from rc low bound res show ?thesis by blast
qed

text \<open>
  Witness for C1: two boxes whose near faces both lie 10 cm ahead of the origin, cast with
  \<open>max_range = 20\<close>. Both are hit at distance 10 and the first inserted one is returned.
\<close>

theorem ray_cast_nearest_hit_witness:
  "hit box_a 0 0 0 (cos 0) (sin 0) 20 10 \<and> hit box_b 0 0 0 (cos 0) (sin 0) 20 10 \<and>
   ray_cast \<lparr>obstacles = [box_a, box_b]\<rparr> 0 0 0 0 20 = Inr (10, Some box_a) \<and>
   first_hit [box_a, box_b] 0 0 0 (cos 0) (sin 0) 20 10 0"
  using ray_cast_nearest_hit [of "\<lparr>obstacles = [box_a, box_b]\<rparr>" 0 0 0 0 20]
    hit_box_a_20 hit_box_b_20
  by (simp add: ray_cast_def hit_def first_hit_def)

text \<open>
  Counterexample to C1 as stated: the same two boxes cast with \<open>max_range = 10\<close>. Both
  overlap the query altitude and both are pierced at the equal distance 10, which their
  2-D test accepts as within range, yet \<^verbatim>\<open>ray_cast\<close> returns no obstacle instead of the
  first inserted one.
\<close>

theorem ray_cast_tie_at_max_range:
  "hit box_a 0 0 0 (cos 0) (sin 0) 10 10 \<and> hit box_b 0 0 0 (cos 0) (sin 0) 10 10 \<and>
   ray_cast \<lparr>obstacles = [box_a, box_b]\<rparr> 0 0 0 0 10 = Inr (10, None)"
  using hit_box_a hit_box_b by (simp add: ray_cast_def hit_def)

subsection \<open>The altitude margin\<close>

lemma ray_cast_loop_filter:
  "ray_cast_loop (filter (\<lambda>ob. overlaps_altitude ob oz 30) obs) ox oy oz dx dy mr acc =
   ray_cast_loop obs ox oy oz dx dy mr acc"
  by (induction obs arbitrary: acc) (auto split: sum.splits option.splits)

lemma ray_cast_loop_returns_overlapping:
  "ray_cast_loop obs ox oy oz dx dy mr (nd, no) = Inr (d, Some ob) \<Longrightarrow>
   no = Some ob \<or> overlaps_altitude ob oz 30"
  by (induction obs arbitrary: nd no) (auto split: sum.splits option.splits if_splits)

lemma tall_box_hit: "ray_intersect_2d tall_box 0 0 (cos 0) (sin 0) 500 = Inr (Some 40)"
  by (simp add: ray_intersect_2d_def ray_aabb_intersect_def axis_slab_def EPS_def SENTINEL_def
      tall_box_def Let_def)

text \<open>
  Claim C10. \<^verbatim>\<open>ray_cast\<close> filters obstacles by altitude with the fixed margin of 30 cm: an
  obstacle takes part in a cast from altitude \<open>oz\<close> exactly when
  \<open>oz + 30 \<ge> z_base\<close> and \<open>oz - 30 \<le> z_base + height\<close>. Removing every obstacle that fails
  this test never changes the result; a returned obstacle always passes it; and an
  obstacle that passes it and is pierced below \<open>max_range\<close> is returned when it stands
  alone.
\<close>

theorem ray_cast_altitude_margin:
  "ray_cast (env\<lparr>obstacles :=
        filter (\<lambda>ob. oz + 30 \<ge> z_base ob \<and> oz - 30 \<le> z_base ob + height ob) (obstacles env)\<rparr>)
      ox oy oz a mr
     = ray_cast env ox oy oz a mr \<and>
   (\<forall>d ob. ray_cast env ox oy oz a mr = Inr (d, Some ob) \<longrightarrow>
       oz + 30 \<ge> z_base ob \<and> oz - 30 \<le> z_base ob + height ob) \<and>
   (\<forall>ob t. oz + 30 \<ge> z_base ob \<and> oz - 30 \<le> z_base ob + height ob \<and>
       ray_intersect_2d ob ox oy (cos a) (sin a) mr = Inr (Some t) \<and> t < mr \<longrightarrow>
       ray_cast \<lparr>obstacles = [ob]\<rparr> ox oy oz a mr = Inr (t, Some ob))"
proof (intro conjI allI impI)
  show "ray_cast (env\<lparr>obstacles :=
        filter (\<lambda>ob. oz + 30 \<ge> z_base ob \<and> oz - 30 \<le> z_base ob + height ob) (obstacles env)\<rparr>)
      ox oy oz a mr
     = ray_cast env ox oy oz a mr"
    using ray_cast_loop_filter [of oz "obstacles env"]
    by (simp add: ray_cast_def overlaps_altitude_def)
next
  fix d ob
  assume "ray_cast env ox oy oz a mr = Inr (d, Some ob)"
  then have "overlaps_altitude ob oz 30"
    using ray_cast_loop_returns_overlapping [of "obstacles env" ox oy oz "cos a" "sin a" mr mr None d ob]
    by (simp add: ray_cast_def)
  then show "z_base ob \<le> oz + 30" and "oz - 30 \<le> z_base ob + height ob"
    by (simp_all add: overlaps_altitude_def)
next
  fix ob t
  assume "oz + 30 \<ge> z_base ob \<and> oz - 30 \<le> z_base ob + height ob \<and>
       ray_intersect_2d ob ox oy (cos a) (sin a) mr = Inr (Some t) \<and> t < mr"
  then show "ray_cast \<lparr>obstacles = [ob]\<rparr> ox oy oz a mr = Inr (t, Some ob)"
    by (simp add: ray_cast_def overlaps_altitude_def)
qed

text \<open>
  Witness for C10: a box 100 cm high standing on the ground is hit from altitude 130, 30 cm
  above its top, and no longer from altitude 131.
\<close>

theorem ray_cast_altitude_margin_witness:
  "ray_cast \<lparr>obstacles = [tall_box]\<rparr> 0 0 130 0 500 = Inr (40, Some tall_box) \<and>
   ray_cast \<lparr>obstacles = [tall_box]\<rparr> 0 0 131 0 500 = Inr (500, None)"
  using ray_cast_altitude_margin [of 130 "\<lparr>obstacles = [tall_box]\<rparr>" 0 0 0 500] tall_box_hit
  by (simp add: ray_cast_def overlaps_altitude_def tall_box_def)

section \<open>The point-collision query\<close>

lemma check_collision_loop_member:
  assumes "ob \<in> set obs" "overlaps_altitude ob pz radius"
    "if is_cylindrical ob
     then sqrt ((px - obs_x ob) ^ 2 + (py - obs_y ob) ^ 2) < width ob / 2 + radius
     else \<bar>px - obs_x ob\<bar> < width ob / 2 + radius \<and> \<bar>py - obs_y ob\<bar> < depth ob / 2 + radius"
  shows "check_collision_loop obs px py pz radius"
  using assms by (induction obs) (auto simp: Let_def split: if_splits)

text \<open>
  Claim C8, as the code has it. For every obstacle of the environment with a non-negative
  height, a positive width and, unless it is cylindrical, a positive depth,
  \<^verbatim>\<open>check_collision((o.x, o.y, o.z_base), radius=0)\<close> is true. The comparisons of the
  footprint test are strict, so for an environment holding a single obstacle the query
  is true exactly under these conditions.
\<close>

theorem check_collision_base_centre:
  "(\<forall>ob\<in>set (obstacles env).
      0 \<le> height ob \<and> 0 < width ob \<and> (is_cylindrical ob \<or> 0 < depth ob) \<longrightarrow>
      check_collision env (obs_x ob) (obs_y ob) (z_base ob) 0) \<and>
   (\<forall>ob. check_collision \<lparr>obstacles = [ob]\<rparr> (obs_x ob) (obs_y ob) (z_base ob) 0 \<longleftrightarrow>
      0 \<le> height ob \<and> 0 < width ob \<and> (is_cylindrical ob \<or> 0 < depth ob))"
proof (intro conjI ballI impI allI)
  fix ob
  assume "ob \<in> set (obstacles env)"
    and "0 \<le> height ob \<and> 0 < width ob \<and> (is_cylindrical ob \<or> 0 < depth ob)"
  then show "check_collision env (obs_x ob) (obs_y ob) (z_base ob) 0"
    unfolding check_collision_def
    by (intro check_collision_loop_member [of ob]) (auto simp: overlaps_altitude_def)
next
  fix ob
  show "check_collision \<lparr>obstacles = [ob]\<rparr> (obs_x ob) (obs_y ob) (z_base ob) 0 \<longleftrightarrow>
      0 \<le> height ob \<and> 0 < width ob \<and> (is_cylindrical ob \<or> 0 < depth ob)"
    by (auto simp: check_collision_def overlaps_altitude_def Let_def)
qed

text \<open>
  Witness for C8: in an environment of a zero-depth wall and a 20 by 20 box, the query at
  the base centre of the box is true.
\<close>

theorem check_collision_base_centre_witness:
  "tall_box \<in> set [thin_wall, tall_box] \<and> 0 \<le> height tall_box \<and> 0 < width tall_box \<and>
   0 < depth tall_box \<and>
   check_collision \<lparr>obstacles = [thin_wall, tall_box]\<rparr>
     (obs_x tall_box) (obs_y tall_box) (z_base tall_box) 0"
  using check_collision_base_centre [of "\<lparr>obstacles = [thin_wall, tall_box]\<rparr>"]
  by (simp add: tall_box_def)

text \<open>
  Counterexample to C8 as stated: a wall of depth 0 is an obstacle of the environment, and
  the query at its own base centre with radius 0 is false.
\<close>

theorem check_collision_thin_wall:
  "\<not> check_collision \<lparr>obstacles = [thin_wall]\<rparr>
        (obs_x thin_wall) (obs_y thin_wall) (z_base thin_wall) 0"
  by (simp add: check_collision_def overlaps_altitude_def thin_wall_def)

section \<open>The box test against the slab method\<close>


lemma slab_core_both:
  "(let t_enter = ext_max (Fin a) (Fin b); t_exit = ext_min (Fin c) (Fin e)
    in if ext_less t_exit t_enter \<or> ext_less t_exit (Fin 0) then None
       else (let t = (if \<not> ext_less t_enter (Fin 0) then t_enter else t_exit)
             in if ext_less (Fin mr) t \<or> ext_less t (Fin 0) then None
                else (case t of Fin v \<Rightarrow> Some v | _ \<Rightarrow> None)))
   = (let t_enter = max a b; t_exit = min c e
      in if t_enter > t_exit \<or> t_exit < 0 then None
         else (let t = (if t_enter \<ge> 0 then t_enter else t_exit)
               in if t > mr \<or> t < 0 then None else Some t))"
  by (auto simp: Let_def ext_max_def ext_min_def max_def min_def)

lemma slab_core_x_par:
  assumes "mr < SENTINEL" "b \<le> e"
  shows "(let t_enter = ext_max MinusInf (Fin b); t_exit = ext_min PlusInf (Fin e)
    in if ext_less t_exit t_enter \<or> ext_less t_exit (Fin 0) then None
       else (let t = (if \<not> ext_less t_enter (Fin 0) then t_enter else t_exit)
             in if ext_less (Fin mr) t \<or> ext_less t (Fin 0) then None
                else (case t of Fin v \<Rightarrow> Some v | _ \<Rightarrow> None)))
   = (let t_enter = max (- SENTINEL) b; t_exit = min SENTINEL e
      in if t_enter > t_exit \<or> t_exit < 0 then None
         else (let t = (if t_enter \<ge> 0 then t_enter else t_exit)
               in if t > mr \<or> t < 0 then None else Some t))"
proof -
  have "0 < SENTINEL" by (simp add: SENTINEL_def)
  with assms show ?thesis
    by (auto simp: Let_def ext_max_def ext_min_def max_def min_def)
qed

lemma slab_core_y_par:
  assumes "mr < SENTINEL" "a \<le> c"
  shows "(let t_enter = ext_max (Fin a) MinusInf; t_exit = ext_min (Fin c) PlusInf
    in if ext_less t_exit t_enter \<or> ext_less t_exit (Fin 0) then None
       else (let t = (if \<not> ext_less t_enter (Fin 0) then t_enter else t_exit)
             in if ext_less (Fin mr) t \<or> ext_less t (Fin 0) then None
                else (case t of Fin v \<Rightarrow> Some v | _ \<Rightarrow> None)))
   = (let t_enter = max a (- SENTINEL); t_exit = min c SENTINEL
      in if t_enter > t_exit \<or> t_exit < 0 then None
         else (let t = (if t_enter \<ge> 0 then t_enter else t_exit)
               in if t > mr \<or> t < 0 then None else Some t))"
proof -
  have "0 < SENTINEL" by (simp add: SENTINEL_def)
  with assms show ?thesis
    by (auto simp: Let_def ext_max_def ext_min_def max_def min_def)
qed

lemma slab_core_par_par:
  assumes "mr < SENTINEL"
  shows "(let t_enter = ext_max MinusInf MinusInf; t_exit = ext_min PlusInf PlusInf
    in if ext_less t_exit t_enter \<or> ext_less t_exit (Fin 0) then None
       else (let t = (if \<not> ext_less t_enter (Fin 0) then t_enter else t_exit)
             in if ext_less (Fin mr) t \<or> ext_less t (Fin 0) then None
                else (case t of Fin v \<Rightarrow> Some v | _ \<Rightarrow> None)))
   = (let t_enter = max (- SENTINEL) (- SENTINEL); t_exit = min SENTINEL SENTINEL
      in if t_enter > t_exit \<or> t_exit < 0 then None
         else (let t = (if t_enter \<ge> 0 then t_enter else t_exit)
               in if t > mr \<or> t < 0 then None else Some t))"
proof -
  have "0 < SENTINEL" by (simp add: SENTINEL_def)
  with assms show ?thesis
    by (auto simp: Let_def ext_max_def ext_min_def max_def min_def)
qed

text \<open>
  Claim C3, as the code has it. For every box, ray origin, direction and every
  \<open>max_range\<close> below \<open>10\<^sup>1\<^sup>8\<close>, the box test of the source returns what the slab method of
  the specification returns: an axis with \<open>|dir| < EPS\<close> misses unless the origin lies
  within the slab and otherwise contributes the unbounded interval; \<open>t_enter\<close> is the larger
  \<open>t_min\<close> and \<open>t_exit\<close> the smaller \<open>t_max\<close>; the ray misses iff \<open>t_enter > t_exit\<close> or
  \<open>t_exit < 0\<close>; the distance is \<open>t_enter\<close> if it is non-negative and \<open>t_exit\<close> otherwise;
  and it is rejected iff it exceeds \<open>max_range\<close> or is negative. The source writes the
  unbounded interval with the finite sentinels \<open>-10\<^sup>1\<^sup>8\<close> and \<open>10\<^sup>1\<^sup>8\<close>, which is why the range is
  bounded.
\<close>

theorem ray_aabb_intersect_slab:
  assumes "max_range < SENTINEL"
  shows "ray_aabb_intersect ob ox oy dx dy max_range = slab_spec ob ox oy dx dy max_range"
proof (cases "\<bar>dx\<bar> < EPS")
  case xpar: True
  show ?thesis
  proof (cases "\<bar>dy\<bar> < EPS")
    case True
    with xpar slab_core_par_par [OF assms] show ?thesis
      by (auto simp: ray_aabb_intersect_def slab_spec_def axis_slab_def slab_axis_spec_def Let_def)
  next
    case False
    with xpar slab_core_x_par [OF assms, of "min ((obs_y ob - depth ob / 2 - oy) / dy) ((obs_y ob + depth ob / 2 - oy) / dy)" "max ((obs_y ob - depth ob / 2 - oy) / dy) ((obs_y ob + depth ob / 2 - oy) / dy)"]
    show ?thesis
      by (auto simp: ray_aabb_intersect_def slab_spec_def axis_slab_def slab_axis_spec_def Let_def)
  qed
next
  case xnpar: False
  show ?thesis
  proof (cases "\<bar>dy\<bar> < EPS")
    case True
    with xnpar slab_core_y_par [OF assms, of "min ((obs_x ob - width ob / 2 - ox) / dx) ((obs_x ob + width ob / 2 - ox) / dx)" "max ((obs_x ob - width ob / 2 - ox) / dx) ((obs_x ob + width ob / 2 - ox) / dx)"]
    show ?thesis
      by (auto simp: ray_aabb_intersect_def slab_spec_def axis_slab_def slab_axis_spec_def Let_def)
  next
    case False
    with xnpar slab_core_both show ?thesis
      by (auto simp: ray_aabb_intersect_def slab_spec_def axis_slab_def slab_axis_spec_def Let_def)
  qed
qed

text \<open>
  Witness for C3: a ray that starts at the centre of a 20 by 40 box and runs along the x
  axis, so that the y axis is the parallel one; with \<open>max_range = 500\<close> both definitions
  return the exit distance 10.
\<close>

theorem ray_aabb_intersect_slab_witness:
  "(500::real) < SENTINEL \<and> ray_aabb_intersect around_origin 0 0 1 0 500 = Some 10 \<and>
   slab_spec around_origin 0 0 1 0 500 = Some 10"
  using ray_aabb_intersect_slab [of 500 around_origin 0 0 1 0]
  by (simp add: slab_spec_def slab_axis_spec_def EPS_def SENTINEL_def around_origin_def
      Let_def ext_max_def ext_min_def)

text \<open>
  Counterexample to C3 as stated: a ray along the y axis (unit direction \<open>(0, 1)\<close>) towards
  a box whose near face is \<open>2 \<sqdot> 10\<^sup>1\<^sup>8\<close> away, with \<open>max_range = 5 \<sqdot> 10\<^sup>1\<^sup>8\<close>. With a truly
  unbounded interval on the parallel x axis the slab method hits at \<open>2 \<sqdot> 10\<^sup>1\<^sup>8\<close>; the source
  caps \<open>t_exit\<close> at the sentinel \<open>10\<^sup>1\<^sup>8\<close> and reports a miss.
\<close>

theorem ray_aabb_intersect_sentinel:
  "ray_aabb_intersect far_box 0 0 0 1 (5 * 10 ^ 18) = None \<and>
   slab_spec far_box 0 0 0 1 (5 * 10 ^ 18) = Some (2 * 10 ^ 18)"
  by (simp add: ray_aabb_intersect_def slab_spec_def axis_slab_def slab_axis_spec_def
      EPS_def SENTINEL_def far_box_def Let_def ext_max_def ext_min_def)

section \<open>The five zones of the avoidance policy\<close>


lemma py_slice_inside:
  assumes "a \<le> b" "b \<le> length xs"
  shows "py_slice xs (int a) (int b) = take (b - a) (drop a xs)"
  using assms by (simp add: py_slice_def Let_def min_def nat_diff_distrib')

lemma py_min_error: "py_min xs = Inl e \<Longrightarrow> e = ValueError \<and> xs = []"
  by (cases xs) auto

lemma py_min_Min: "xs \<noteq> [] \<Longrightarrow> py_min xs = Inr (Min (set xs))"
proof (cases xs)
  case Nil
  then show "xs \<noteq> [] \<Longrightarrow> ?thesis" by simp
next
  case (Cons v vs)
  have "fold min vs v = Min (set (v # vs))" by (rule Min.set_eq_fold [symmetric])
  with Cons show ?thesis by simp
qed

lemma zones_loop_error:
  "z \<in> set zs \<Longrightarrow> zone_depths ds n z = [] \<Longrightarrow> zones_loop ds n zs = Inl ValueError"
proof (induction zs)
  case Nil
  then show ?case by simp
next
  case (Cons y ys)
  show ?case
  proof (cases "zone_depths ds n y = []")
    case True
    then show ?thesis by simp
  next
    case False
    with Cons.prems have "z \<in> set ys" by auto
    from Cons.IH [OF this Cons.prems(2)] False show ?thesis
      by (simp add: py_min_Min)
  qed
qed

lemma zones_loop_ok:
  "\<forall>z\<in>set zs. zone_depths ds n z \<noteq> [] \<Longrightarrow>
   zones_loop ds n zs = Inr (map (\<lambda>z. Min (set (zone_depths ds n z))) zs)"
  by (induction zs) (simp_all add: py_min_Min)

lemma zone_depths_inner:
  assumes "int (length ds) = n" "z < 4"
  shows "zone_depths ds n (int z) = take (nat (n div 5)) (drop (z * nat (n div 5)) ds)"
proof -
  define k where "k = length ds div 5"
  have n: "n div 5 = int k" using assms(1) by (simp add: k_def zdiv_int)
  have le: "z * k + k \<le> length ds" 
  proof -
    have "z * k + k \<le> 4 * k" using assms(2) by (simp add: Suc_le_eq flip: mult_Suc) 
    also have "\<dots> \<le> length ds" by (simp add: k_def)
    finally show ?thesis .
  qed
  have "zone_bounds n (int z) = (int (z * k), int (z * k + k))"
    using assms(2) by (simp add: zone_bounds_def Let_def n)
  then have "zone_depths ds n (int z) = py_slice ds (int (z * k)) (int (z * k + k))"
    by (simp add: zone_depths_def)
  also have "\<dots> = take k (drop (z * k) ds)"
    using py_slice_inside [of "z * k" "z * k + k" ds] le by simp
  finally show ?thesis by (simp add: n)
qed

lemma zone_depths_last:
  assumes "int (length ds) = n"
  shows "zone_depths ds n 4 = drop (4 * nat (n div 5)) ds"
proof -
  define k where "k = length ds div 5"
  have n: "n div 5 = int k" using assms(1) by (simp add: k_def zdiv_int)
  have le: "4 * k \<le> length ds" by (simp add: k_def)
  have "zone_bounds n 4 = (int (4 * k), int (length ds))"
    using assms by (simp add: zone_bounds_def Let_def n)
  then have "zone_depths ds n 4 = py_slice ds (int (4 * k)) (int (length ds))"
    by (simp add: zone_depths_def)
  also have "\<dots> = drop (4 * k) ds"
    using py_slice_inside [of "4 * k" "length ds" ds] le by simp
  finally show ?thesis by (simp add: n)
qed



lemma zone_concat:
  assumes "int (length ds) = n"
  shows "concat (map (zone_depths ds n) [0, 1, 2, 3, 4]) = ds"
proof -
  define k where "k = nat (n div 5)"
  have z0: "zone_depths ds n 0 = take k ds"
    using zone_depths_inner [OF assms, of 0] by (simp add: k_def)
  have z1: "zone_depths ds n 1 = take k (drop k ds)"
    using zone_depths_inner [OF assms, of 1] by (simp add: k_def)
  have z2: "zone_depths ds n 2 = take k (drop (2 * k) ds)"
    using zone_depths_inner [OF assms, of 2] by (simp add: k_def)
  have z3: "zone_depths ds n 3 = take k (drop (3 * k) ds)"
    using zone_depths_inner [OF assms, of 3] by (simp add: k_def)
  have z4: "zone_depths ds n 4 = drop (4 * k) ds"
    using zone_depths_last [OF assms] by (simp add: k_def)
  have step: "take k (drop m ds) @ drop m' ds = drop m ds" if "m' = m + k" for m m'
    using append_take_drop_id [of k "drop m ds"] that by (simp add: add.commute)
  have s3: "take k (drop (3 * k) ds) @ drop (4 * k) ds = drop (3 * k) ds"
    by (rule step) simp
  have s2: "take k (drop (2 * k) ds) @ drop (3 * k) ds = drop (2 * k) ds"
    by (rule step) simp
  have s1: "take k (drop k ds) @ drop (2 * k) ds = drop k ds"
    by (rule step) simp
  have "take k ds @ take k (drop k ds) @ take k (drop (2 * k) ds) @ take k (drop (3 * k) ds)
          @ drop (4 * k) ds = ds"
    by (simp only: s3 s2 s1 append_take_drop_id)
  then show ?thesis by (simp add: z0 z1 z2 z3 z4)
qed

lemma zone_lengths:
  assumes "int (length ds) = n"
  shows "\<forall>z\<in>{0, 1, 2, 3}. int (length (zone_depths ds n z)) = n div 5"
    and "int (length (zone_depths ds n 4)) = n div 5 + n mod 5"
proof -
  define k where "k = nat (n div 5)"
  from assms have n0: "0 \<le> n" by auto
  then have kn: "int k = n div 5" by (simp add: k_def)
  have le: "4 * k \<le> length ds"
  proof -
    have "int (4 * k) \<le> n" using kn n0 by simp
    with assms show ?thesis by linarith
  qed
  have "int (length (zone_depths ds n (int z))) = n div 5" if "z < 4" for z
  proof -
    have "z * k + k \<le> 4 * k" using that by (simp add: Suc_le_eq flip: mult_Suc)
    with le have "k \<le> length ds - z * k" by linarith
    then show ?thesis
      using zone_depths_inner [OF assms that] kn by (simp add: k_def)
  qed
  from this [of 0] this [of 1] this [of 2] this [of 3]
  show "\<forall>z\<in>{0, 1, 2, 3}. int (length (zone_depths ds n z)) = n div 5" by simp
  have "int (length (zone_depths ds n 4)) = n - 4 * (n div 5)"
    using zone_depths_last [OF assms] le assms kn by (simp add: k_def)
  also have "\<dots> = n div 5 + n mod 5"
    using div_mult_mod_eq [of n 5] by linarith
  finally show "int (length (zone_depths ds n 4)) = n div 5 + n mod 5" .
qed

lemma zones_nonempty:
  assumes "int (length ds) = n" "5 \<le> n"
  shows "\<forall>z\<in>set [0, 1, 2, 3, 4]. zone_depths ds n z \<noteq> []"
proof -
  have "1 \<le> n div 5" using assms(2) by linarith
  moreover have "0 \<le> n mod 5" by simp
  ultimately have pos: "0 < n div 5" "0 < n div 5 + n mod 5" by linarith+
  have "zone_depths ds n z \<noteq> []" if "z \<in> {0, 1, 2, 3}" for z
  proof
    assume "zone_depths ds n z = []"
    then have "int (length (zone_depths ds n z)) = 0" by simp
    with zone_lengths(1) [OF assms(1)] that pos(1) show False by auto
  qed
  moreover have "zone_depths ds n 4 \<noteq> []"
  proof
    assume "zone_depths ds n 4 = []"
    then have "int (length (zone_depths ds n 4)) = 0" by simp
    with zone_lengths(2) [OF assms(1)] pos(2) show False by simp
  qed
  ultimately show ?thesis by simp
qed



lemma zones_loop_small:
  assumes "n < 5"
  shows "zones_loop ds n [0, 1, 2, 3, 4] = Inl ValueError"
proof (cases "0 \<le> n")
  case True
  with assms have "n div 5 = 0" by simp
  then have "zone_depths ds n 0 = []"
    by (simp add: zone_depths_def zone_bounds_def py_slice_def Let_def)
  then show ?thesis
    by (intro zones_loop_error [of 0]) simp_all
next
  case False
  then have "n div 5 < 0" by simp
  then have "zone_depths ds n 1 = []"
    by (simp add: zone_depths_def zone_bounds_def py_slice_def Let_def)
  then show ?thesis
    by (intro zones_loop_error [of 1]) simp_all
qed

lemma compute_commands_error:
  "compute_zones frame = Inl e \<Longrightarrow> compute_commands frame st gb ga = Inl e"
  by (simp add: compute_commands_def)

lemma compute_commands_total:
  "compute_zones frame = Inr zs \<Longrightarrow> \<exists>out. compute_commands frame st gb ga = Inr out"
  by (simp add: compute_commands_def Let_def)

lemma zones_empty_small:
  assumes "int (length ds) = n" "n < 5"
  shows "\<forall>z\<in>{0, 1, 2, 3}. zone_depths ds n z = []"
proof -
  from assms have "n div 5 = 0" by simp
  with zone_lengths(1) [OF assms(1)] show ?thesis by simp
qed

lemma compute_zones_frame5: "compute_zones frame5 = Inr [500, 500, 500, 500, 500]"
  by (simp add: compute_zones_def frame5_def zone_depths_def zone_bounds_def py_slice_def Let_def)

text \<open>
  What the loop computes on a frame whose \<open>depths\<close> has \<open>num_rays\<close> entries: contiguous
  slices that make up the scan in order, \<open>num_rays div 5\<close> rays in each of zones 0 to 3 and
  the remaining \<open>num_rays div 5 + num_rays mod 5\<close> rays in zone 4, and then the minimum of
  each slice.
\<close>

lemma zone_sizes:
  assumes "int (length (depths frame)) = num_rays frame"
  shows "concat (map (zone_depths (depths frame) (num_rays frame)) [0, 1, 2, 3, 4]) = depths frame \<and>
    (\<forall>z\<in>{0, 1, 2, 3}. int (length (zone_depths (depths frame) (num_rays frame) z))
        = num_rays frame div 5) \<and>
    int (length (zone_depths (depths frame) (num_rays frame) 4))
        = num_rays frame div 5 + num_rays frame mod 5 \<and>
    (5 \<le> num_rays frame \<longrightarrow>
       compute_zones frame =
         Inr (map (\<lambda>z. Min (set (zone_depths (depths frame) (num_rays frame) z))) [0, 1, 2, 3, 4]))"
  using zone_concat [OF assms] zone_lengths [OF assms]
    zones_loop_ok [OF zones_nonempty [OF assms]]
  by (simp add: compute_zones_def)

text \<open>
  Claim C2 says that the depth values are split into five equal contiguous zones, each
  with the same number of rays, in particular for the default frame of 48 rays; the
  comment above the loop says the same. The code at that frame: zones 0 to 3 receive 9
  rays each and zone 4 receives 12.
\<close>

theorem zones_unequal_for_48_rays:
  "int (length (depths frame48)) = num_rays frame48 \<and>
   map (\<lambda>z. length (zone_depths (depths frame48) (num_rays frame48) z)) [0, 1, 2, 3, 4]
     = [9, 9, 9, 9, 12]"
  by (simp add: frame48_def zone_depths_def zone_bounds_def py_slice_def Let_def)

text \<open>
  Claim C9. The zone computation needs \<open>num_rays \<ge> 5\<close>. For every frame with
  \<open>num_rays < 5\<close> the policy raises \<^verbatim>\<open>ValueError\<close>. For a frame whose \<open>depths\<close> has
  \<open>num_rays\<close> entries: if \<open>num_rays \<ge> 5\<close>, each of the five slices is non-empty, every
  zone minimum exists and the policy returns commands; if \<open>1 \<le> num_rays < 5\<close>, the first
  four slices are empty and the minimum of the first one is the raised error.
\<close>

theorem zones_need_five_rays:
  "(num_rays frame < 5 \<longrightarrow> compute_commands frame st gb ga = Inl ValueError) \<and>
   (int (length (depths frame)) = num_rays frame \<longrightarrow>
      (5 \<le> num_rays frame \<longrightarrow>
         (\<forall>z\<in>{0, 1, 2, 3, 4}. zone_depths (depths frame) (num_rays frame) z \<noteq> []) \<and>
         (\<exists>zs. compute_zones frame = Inr zs) \<and>
         (\<exists>out. compute_commands frame st gb ga = Inr out)) \<and>
      (1 \<le> num_rays frame \<and> num_rays frame < 5 \<longrightarrow>
         (\<forall>z\<in>{0, 1, 2, 3}. zone_depths (depths frame) (num_rays frame) z = []) \<and>
         py_min (zone_depths (depths frame) (num_rays frame) 0) = Inl ValueError))"
proof (intro conjI impI)
  assume "num_rays frame < 5"
  then have "compute_zones frame = Inl ValueError"
    unfolding compute_zones_def by (rule zones_loop_small)
  then show "compute_commands frame st gb ga = Inl ValueError"
    by (rule compute_commands_error)
next
  assume len: "int (length (depths frame)) = num_rays frame" and five: "5 \<le> num_rays frame"
  from zones_nonempty [OF len five]
  show ne: "\<forall>z\<in>{0, 1, 2, 3, 4}. zone_depths (depths frame) (num_rays frame) z \<noteq> []" by simp
  from zones_loop_ok [OF zones_nonempty [OF len five]]
  show zs: "\<exists>zs. compute_zones frame = Inr zs" by (simp add: compute_zones_def)
  then show "\<exists>out. compute_commands frame st gb ga = Inr out"
    using compute_commands_total by blast
next
  assume len: "int (length (depths frame)) = num_rays frame"
    and small: "1 \<le> num_rays frame \<and> num_rays frame < 5"
  from zones_empty_small [OF len] small
  show e: "\<forall>z\<in>{0, 1, 2, 3}. zone_depths (depths frame) (num_rays frame) z = []" by blast
  then show "py_min (zone_depths (depths frame) (num_rays frame) 0) = Inl ValueError" by simp
qed

text \<open>
  Witness for C9: the policy raises on a well-formed frame of 3 rays and returns commands
  on one of 5 rays.
\<close>

theorem zones_need_five_rays_witness:
  "num_rays frame3 < 5 \<and> int (length (depths frame3)) = num_rays frame3 \<and>
   compute_commands frame3 hovering 0 80 = Inl ValueError \<and>
   5 \<le> num_rays frame5 \<and> int (length (depths frame5)) = num_rays frame5 \<and>
   (\<exists>out. compute_commands frame5 hovering 0 80 = Inr out)"
  using zones_need_five_rays [of frame3 hovering 0 80]
    zones_need_five_rays [of frame5 hovering 0 80]
  by (simp add: frame3_def frame5_def)

section \<open>The clear regime of the avoidance policy\<close>

text \<open>
  Claim C7, as the code has it. When the centre zone is at least \<open>SAFETY = 100\<close> and both
  outer zones are at least \<open>0.6 \<sqdot> SAFETY\<close>, the command the navigator emits is: lateral
  stick 0, forward stick \<open>CRUISE = 45\<close>, and for the vertical and the yaw stick the
  goal-seeking values \<open>clamp((goal_z - z) \<sqdot> 0.5, -30, 30)\<close> and
  \<open>clamp(heading_error \<sqdot> 0.8, -60, 60)\<close> truncated toward zero by \<^verbatim>\<open>int(...)\<close>, where
  \<open>heading_error = ((goal_bearing - yaw + 180) mod 360) - 180\<close>.
\<close>

theorem clear_regime_goal_seeking:
  assumes "compute_zones frame = Inr zones"
    and "SAFETY_DISTANCE \<le> zones ! 2"
    and "0.6 * SAFETY_DISTANCE \<le> zones ! 0"
    and "0.6 * SAFETY_DISTANCE \<le> zones ! 4"
  shows "nav_rc_command frame st goal_bearing goal_z =
           Inr (0, 45, py_int (spec_alt_cmd goal_z (pos_z st)),
                py_int (spec_yaw_cmd goal_bearing (yaw st)))"
  using assms
  by (simp add: nav_rc_command_def compute_commands_def Let_def spec_alt_cmd_def spec_yaw_cmd_def
      SAFETY_DISTANCE_def CRITICAL_DISTANCE_def CRUISE_SPEED_def)

text \<open>
  Witness for C7: a 5-ray frame with nothing in sight, the goal 90 degrees to the side and
  40 cm higher: the emitted command is \<open>(0, 45, 20, 60)\<close>.
\<close>

theorem clear_regime_goal_seeking_witness:
  "compute_zones frame5 = Inr [500, 500, 500, 500, 500] \<and>
   SAFETY_DISTANCE \<le> [500, 500, 500, 500, 500] ! 2 \<and>
   0.6 * SAFETY_DISTANCE \<le> [500, 500, 500, 500, 500] ! 0 \<and>
   0.6 * SAFETY_DISTANCE \<le> [500, 500, 500, 500, 500] ! 4 \<and>
   nav_rc_command frame5 hovering 90 120 = Inr (0, 45, 20, 60)"
  using clear_regime_goal_seeking [of frame5 "[500, 500, 500, 500, 500]" hovering 90 120]
    compute_zones_frame5
  by (simp add: SAFETY_DISTANCE_def spec_alt_cmd_def spec_yaw_cmd_def heading_error_def
      py_fmod_def py_int_def hovering_def)

text \<open>
  Counterexample to C7 as stated: in the same clear frame with the goal bearing 1 degree
  off and the goal 1 cm higher, the goal-seeking values are \<open>0.8\<close> and \<open>0.5\<close>, but the
  emitted yaw and vertical sticks are both \<open>0\<close>.
\<close>

theorem clear_regime_truncates:
  "compute_zones frame5 = Inr [500, 500, 500, 500, 500] \<and>
   nav_rc_command frame5 hovering 1 81 = Inr (0, 45, 0, 0) \<and>
   spec_yaw_cmd 1 (yaw hovering) = 0.8 \<and> spec_alt_cmd 81 (pos_z hovering) = 0.5"
  using compute_zones_frame5
  by (simp add: nav_rc_command_def compute_commands_def Let_def spec_alt_cmd_def
      spec_yaw_cmd_def SAFETY_DISTANCE_def CRITICAL_DISTANCE_def CRUISE_SPEED_def
      heading_error_def py_fmod_def py_int_def hovering_def)

section \<open>The float remainder\<close>

lemma round_even_bounds: "\<lfloor>x\<rfloor> \<le> round_even x \<and> round_even x \<le> \<lceil>x\<rceil>"
proof -
  have "\<lfloor>x\<rfloor> + 1 \<le> \<lceil>x\<rceil>" if "0 < x - of_int \<lfloor>x\<rfloor>"
  proof -
    from that have "of_int \<lfloor>x\<rfloor> < x" by simp
    then have "\<lfloor>x\<rfloor> < \<lceil>x\<rceil>" by (simp add: less_ceiling_iff)
    then show ?thesis by simp
  qed
  moreover have "\<lfloor>x\<rfloor> \<le> \<lceil>x\<rceil>" by (rule floor_le_ceiling)
  ultimately show ?thesis
    by (auto simp: round_even_def Let_def)
qed

lemma round_double_range_360:
  assumes "0 < v" "v < 360"
  shows "0 \<le> round_double v \<and> round_double v \<le> 360"
proof -
  define e where "e = max \<lfloor>log 2 \<bar>v\<bar>\<rfloor> (- 1022)"
  define ulp :: real where "ulp = 2 powr (of_int e - 52)"
  have rd: "round_double v = of_int (round_even (v / ulp)) * ulp"
    using assms(1) by (simp add: round_double_def Let_def e_def ulp_def)
  have ulp_pos: "0 < ulp" by (simp add: ulp_def)
  have "log 2 v < 9"
  proof -
    have "v < 2 powr 9" using assms(2) by simp
    then show ?thesis using assms(1) by (simp add: log_less_iff)
  qed
  then have "\<lfloor>log 2 \<bar>v\<bar>\<rfloor> \<le> 8" using assms(1) by (simp add: floor_le_iff)
  then have e8: "e \<le> 8" by (simp add: e_def)
  define k where "k = nat (52 - e)"
  have k: "int k = 52 - e" using e8 by (simp add: k_def)
  have ulp_k: "ulp = 1 / 2 ^ k"
  proof -
    have "of_int e - 52 = - real k" using k by linarith
    then have "ulp = 2 powr (- real k)" by (simp add: ulp_def)
    then show ?thesis by (simp add: powr_minus_divide powr_realpow)
  qed
  have lo: "0 \<le> round_even (v / ulp)"
  proof -
    have "0 \<le> v / ulp" using assms(1) ulp_pos by simp
    then have "0 \<le> \<lfloor>v / ulp\<rfloor>" by simp
    with round_even_bounds [of "v / ulp"] show ?thesis by linarith
  qed
  have hi: "round_even (v / ulp) \<le> 360 * 2 ^ k"
  proof -
    have "v / ulp = v * 2 ^ k" by (simp add: ulp_k)
    also have "\<dots> \<le> 360 * 2 ^ k" using assms(2) by simp
    finally have "v / ulp \<le> of_int (360 * 2 ^ k)" by simp
    then have "\<lceil>v / ulp\<rceil> \<le> 360 * 2 ^ k" by (simp only: ceiling_le_iff)
    with round_even_bounds [of "v / ulp"] show ?thesis by linarith
  qed
  have "0 \<le> of_int (round_even (v / ulp)) * ulp" using lo ulp_pos by simp
  moreover have "of_int (round_even (v / ulp)) * ulp \<le> 360"
  proof -
    from hi have "(of_int (round_even (v / ulp)) :: real) \<le> of_int (360 * 2 ^ k)"
      by (simp only: of_int_le_iff)
    then have "(of_int (round_even (v / ulp)) :: real) \<le> 360 * 2 ^ k" by simp
    then have "of_int (round_even (v / ulp)) * ulp \<le> 360 * 2 ^ k * ulp"
      using ulp_pos by (simp only: mult_le_cancel_right_pos)
    also have "\<dots> = 360" by (simp add: ulp_k)
    finally show ?thesis .
  qed
  ultimately show ?thesis by (simp add: rd)
qed

lemma fmod_part_range:
  assumes "0 < m"
  shows "(0 \<le> a \<longrightarrow> 0 \<le> a - m * of_int (py_int (a / m)) \<and> a - m * of_int (py_int (a / m)) < m) \<and>
         (a < 0 \<longrightarrow> - m < a - m * of_int (py_int (a / m)) \<and> a - m * of_int (py_int (a / m)) \<le> 0)"
proof (intro conjI impI)
  assume a: "0 \<le> a"
  then have p: "py_int (a / m) = \<lfloor>a / m\<rfloor>" using assms by (simp add: py_int_def)
  have lo: "of_int \<lfloor>a / m\<rfloor> \<le> a / m" and hi: "a / m < of_int \<lfloor>a / m\<rfloor> + 1"
    by linarith+
  from assms have "(of_int \<lfloor>a / m\<rfloor> \<le> a / m) = (of_int \<lfloor>a / m\<rfloor> * m \<le> a)"
    by (rule pos_le_divide_eq)
  with lo have 1: "of_int \<lfloor>a / m\<rfloor> * m \<le> a" by blast
  from assms have "(a / m < of_int \<lfloor>a / m\<rfloor> + 1) = (a < (of_int \<lfloor>a / m\<rfloor> + 1) * m)"
    by (rule pos_divide_less_eq)
  with hi have 2: "a < (of_int \<lfloor>a / m\<rfloor> + 1) * m" by blast
  from 1 show "0 \<le> a - m * of_int (py_int (a / m))" by (simp add: p algebra_simps)
  from 2 show "a - m * of_int (py_int (a / m)) < m" by (simp add: p algebra_simps)
next
  assume a: "a < 0"
  then have "a / m < 0" using assms by (simp add: divide_neg_pos)
  then have p: "py_int (a / m) = \<lceil>a / m\<rceil>" by (simp add: py_int_def)
  have lo: "of_int \<lceil>a / m\<rceil> - 1 < a / m" and hi: "a / m \<le> of_int \<lceil>a / m\<rceil>"
    by linarith+
  from assms have "(of_int \<lceil>a / m\<rceil> - 1 < a / m) = ((of_int \<lceil>a / m\<rceil> - 1) * m < a)"
    by (rule pos_less_divide_eq)
  with lo have 1: "(of_int \<lceil>a / m\<rceil> - 1) * m < a" by blast
  from assms have "(a / m \<le> of_int \<lceil>a / m\<rceil>) = (a \<le> of_int \<lceil>a / m\<rceil> * m)"
    by (rule pos_divide_le_eq)
  with hi have 2: "a \<le> of_int \<lceil>a / m\<rceil> * m" by blast
  from 1 show "- m < a - m * of_int (py_int (a / m))" by (simp add: p algebra_simps)
  from 2 show "a - m * of_int (py_int (a / m)) \<le> 0" by (simp add: p algebra_simps)
qed

lemma py_fmod_360_range: "0 \<le> py_fmod a 360 \<and> py_fmod a 360 \<le> 360"
proof -
  define r where "r = a - 360 * of_int (py_int (a / 360))"
  have pf: "py_fmod a 360 = (if r < 0 then round_double (r + 360) else r)"
    by (auto simp: py_fmod_def Let_def r_def)
  show ?thesis
  proof (cases "r < 0")
    case True
    have "- 360 < r"
      using fmod_part_range [of 360 a] True by (cases "0 \<le> a") (auto simp: r_def)
    with True round_double_range_360 [of "r + 360"] show ?thesis by (simp add: pf)
  next
    case False
    have "r < 360"
      using fmod_part_range [of 360 a] False by (cases "0 \<le> a") (auto simp: r_def)
    with False show ?thesis by (simp add: pf)
  qed
qed

lemma floor_log2_between:
  assumes "2 ^ k \<le> v" "v < 2 ^ Suc k"
  shows "\<lfloor>log 2 v\<rfloor> = int k"
proof -
  have "0 < v" using assms(1) by (meson less_le_trans zero_less_numeral zero_less_power)
  moreover have "(2::real) powr (of_int (int k)) \<le> v \<and> v < 2 powr (of_int (int k + 1))"
    using assms by (simp add: powr_realpow powr_add)
  ultimately show ?thesis
    by (simp add: floor_log_eq_powr_iff)
qed

lemma round_double_below_360: "round_double (360 - 1 / 2 ^ 47) = 360"
proof -
  have e: "\<lfloor>log 2 \<bar>360 - 1 / 2 ^ 47 :: real\<bar>\<rfloor> = 8"
    using floor_log2_between [of 8 "360 - 1 / 2 ^ 47"] by simp
  show ?thesis
    unfolding round_double_def e Let_def
    by (simp add: round_even_def powr_minus_divide powr_numeral)
qed

lemma py_int_small: "- 1 < v \<Longrightarrow> v < 1 \<Longrightarrow> py_int v = 0"
  by (auto simp: py_int_def floor_eq_iff ceiling_eq_iff)

section \<open>The simulated backend\<close>

text \<open>
  What every operation does keep: the battery, altitude and temperature bounds, flying
  implies connected, and the yaw within \<open>0 \<le> yaw \<le> 360\<close>, the upper end included.
\<close>

lemma drain_battery_inv:
  "state_inv_closed st \<Longrightarrow> 0 \<le> seconds \<Longrightarrow> state_inv_closed (drain_battery seconds st)"
  by (auto simp: state_inv_closed_def drain_battery_def)

lemma ground_inv: "state_inv_closed (sim_state s) \<Longrightarrow> state_inv_closed (sim_state (ground now s))"
  by (auto simp: ground_def state_inv_closed_def Let_def split: option.splits)

lemma stop_rc_loop_state: "sim_state (stop_rc_loop s) = sim_state s"
  by (simp add: stop_rc_loop_def)

lemma start_rc_loop_state: "sim_state (start_rc_loop s) = sim_state s"
  by (simp add: start_rc_loop_def)

lemma connect_inv: "state_inv_closed (sim_state s) \<Longrightarrow> state_inv_closed (sim_state (fst (connect s)))"
  by (simp add: connect_def state_inv_closed_def)

lemma emergency_stop_inv:
  "state_inv_closed (sim_state s) \<Longrightarrow> state_inv_closed (sim_state (emergency_stop now s))"
  by (simp add: emergency_stop_def ground_inv stop_rc_loop_state)

lemma ground_not_flying: "\<not> is_flying (sim_state (ground now s))"
  by (simp add: ground_def Let_def split: option.splits)

lemma disconnect_inv:
  assumes "state_inv_closed (sim_state s)"
  shows "state_inv_closed (sim_state (disconnect now s))"
proof -
  have "state_inv_closed (sim_state (emergency_stop now s))"
    using assms by (rule emergency_stop_inv)
  moreover have "\<not> is_flying (sim_state (emergency_stop now s))"
    by (simp add: emergency_stop_def ground_not_flying)
  ultimately show ?thesis
    by (simp add: disconnect_def Let_def state_inv_closed_def)
qed

lemma takeoff_inv: "state_inv_closed (sim_state s) \<Longrightarrow> state_inv_closed (sim_state (fst (takeoff now s)))"
  by (simp add: takeoff_def start_rc_loop_state state_inv_closed_def)

lemma land_inv: "state_inv_closed (sim_state s) \<Longrightarrow> state_inv_closed (sim_state (fst (land now s)))"
  by (simp add: land_def Let_def ground_inv stop_rc_loop_state)

lemma move_inv:
  assumes "state_inv_closed (sim_state s)"
  shows "state_inv_closed (sim_state (fst (move direction distance_cm s)))"
proof (cases "move_delta direction distance_cm (radians (yaw (sim_state s)))")
  case None
  with assms show ?thesis by (simp add: move_def)
next
  case (Some delta)
  obtain dx dy dz where delta: "delta = (dx, dy, dz)" by (cases delta) auto
  define duration :: real where "duration = of_int distance_cm / of_int (speed_setpoint s)"
  define st1 where "st1 = (sim_state s)\<lparr>pos_x := pos_x (sim_state s) + dx,
      pos_y := pos_y (sim_state s) + dy, pos_z := max 0 (pos_z (sim_state s) + dz)\<rparr>"
  have st1: "state_inv_closed st1" using assms by (simp add: st1_def state_inv_closed_def)
  show ?thesis
  proof (cases "is_flying (sim_state s) \<and> speed_setpoint s \<noteq> 0 \<and> \<not> min duration 2 < 0")
    case True
    then have "0 \<le> duration" by (simp add: min_def split: if_splits)
    from drain_battery_inv [OF st1 this] True Some delta show ?thesis
      by (simp add: move_def Let_def duration_def st1_def)
  next
    case False
    with assms Some delta show ?thesis
      by (auto simp: move_def Let_def duration_def)
  qed
qed

lemma rotate_inv: "state_inv_closed (sim_state s) \<Longrightarrow> state_inv_closed (sim_state (fst (rotate degrees s)))"
  using py_fmod_360_range [of "yaw (sim_state s) + of_int degrees"]
  by (simp add: rotate_def state_inv_closed_def)

lemma set_speed_inv: "state_inv_closed (sim_state s) \<Longrightarrow> state_inv_closed (sim_state (fst (set_speed v s)))"
  by (simp add: set_speed_def)

lemma send_rc_inv: "state_inv_closed (sim_state s) \<Longrightarrow> state_inv_closed (sim_state (send_rc lr fb ud yr s))"
  by (simp add: send_rc_def)

lemma go_to_step_inv:
  assumes "state_inv_closed st" "0 \<le> dt"
  shows "state_inv_closed (go_to_step start target spd steps dt i st)"
proof -
  obtain sx sy sz where s: "start = (sx, sy, sz)" by (cases start) auto
  obtain tx ty tz where t: "target = (tx, ty, tz)" by (cases target) auto
  have "state_inv_closed (st\<lparr>pos_x := sx + (of_int tx - sx) * (of_int i / of_int steps),
                    pos_y := sy + (of_int ty - sy) * (of_int i / of_int steps),
                    pos_z := max 0 (sz + (of_int tz - sz) * (of_int i / of_int steps)),
                    speed := of_int spd\<rparr>)"
    using assms(1) by (simp add: state_inv_closed_def)
  from drain_battery_inv [OF this assms(2)] show ?thesis
    by (simp add: go_to_step_def s t Let_def)
qed

lemma go_to_fold_inv:
  "state_inv_closed st \<Longrightarrow> 0 \<le> dt \<Longrightarrow>
   state_inv_closed (fold (go_to_step start target spd steps dt) is st)"
  by (induction "is" arbitrary: st) (simp_all add: go_to_step_inv)

lemma go_to_inv:
  assumes "state_inv_closed (sim_state s)"
  shows "state_inv_closed (sim_state (fst (go_to tx ty tz spd s)))"
proof -
  define dst where "dst = sqrt ((of_int tx - pos_x (sim_state s)) ^ 2
      + (of_int ty - pos_y (sim_state s)) ^ 2 + (of_int tz - pos_z (sim_state s)) ^ 2)"
  define duration where "duration = dst / of_int (max spd 10)"
  define steps where "steps = max (py_int (duration * 10)) 1"
  have "0 \<le> dst" by (simp add: dst_def)
  then have "0 \<le> duration" by (simp add: duration_def)
  moreover have "1 \<le> steps" by (simp add: steps_def)
  ultimately have dt: "0 \<le> duration / of_int steps" by simp
  show ?thesis
    using assms go_to_fold_inv [OF assms dt]
    by (simp add: go_to_def Let_def dst_def duration_def steps_def)
qed

lemma rc_tick_inv:
  assumes "state_inv_closed (sim_state s)" "rc_tick s = Some s'"
  shows "state_inv_closed (sim_state s')"
proof -
  obtain lr fb ud yr where rc: "rc_values s = (lr, fb, ud, yr)" by (cases "rc_values s") auto
  define scale where "scale = of_int (speed_setpoint s) * rc_interval / 100"
  define st5 where "st5 = (sim_state s)
    \<lparr>pos_x := pos_x (sim_state s) + (of_int fb * cos (radians (yaw (sim_state s)))
                 - of_int lr * sin (radians (yaw (sim_state s)))) * scale,
     pos_y := pos_y (sim_state s) + (of_int fb * sin (radians (yaw (sim_state s)))
                 + of_int lr * cos (radians (yaw (sim_state s)))) * scale,
     pos_z := max 0 (pos_z (sim_state s) + of_int ud * scale),
     yaw := py_fmod (yaw (sim_state s) + of_int yr * 0.9 * rc_interval) 360,
     speed := sqrt (of_int (lr ^ 2 + fb ^ 2 + ud ^ 2)) * of_int (speed_setpoint s) / 100\<rparr>"
  have "0 \<le> py_fmod (yaw (sim_state s) + of_int yr * 0.9 * rc_interval) 360 \<and>
        py_fmod (yaw (sim_state s) + of_int yr * 0.9 * rc_interval) 360 \<le> 360"
    by (rule py_fmod_360_range)
  with assms(1) have "state_inv_closed st5" by (simp add: st5_def state_inv_closed_def)
  moreover have "0 \<le> rc_interval" by (simp add: rc_interval_def)
  ultimately have "state_inv_closed (drain_battery rc_interval st5)" by (rule drain_battery_inv)
  moreover from assms(2) rc have "sim_state s' = drain_battery rc_interval st5"
    by (auto simp: rc_tick_def Let_def st5_def scale_def split: if_splits)
  ultimately show ?thesis by simp
qed

lemma sim_exec_inv:
  assumes "state_inv_closed (sim_state s)"
  shows "state_inv_closed (sim_state (sim_exec op s))"
proof (cases op)
  case RcTick
  with assms show ?thesis
    by (auto simp: rc_tick_inv split: option.splits)
qed (simp_all add: assms connect_inv disconnect_inv takeoff_inv land_inv emergency_stop_inv
      move_inv rotate_inv set_speed_inv send_rc_inv go_to_inv)

lemma init_inv: "state_inv_closed (sim_state (SimulatedDrone_init now))"
  by (simp add: SimulatedDrone_init_def DroneState_default_def state_inv_closed_def)

text \<open>These conditions therefore hold after any sequence of operations on a new simulator.\<close>

lemma run_inv: "state_inv_closed (sim_state (fold sim_exec ops (SimulatedDrone_init now)))"
proof -
  have "state_inv_closed (sim_state s) \<Longrightarrow> state_inv_closed (sim_state (fold sim_exec ops s))" for s
    by (induction ops arbitrary: s) (simp_all add: sim_exec_inv)
  from this [OF init_inv] show ?thesis .
qed

lemma almost_nine_rotate:
  "yaw (sim_state (sim_exec (Rotate (- 9)) almost_nine_sim)) = 360"
proof -
  have "py_int ((9 - 1 / 2 ^ 47 + of_int (- 9)) / 360) = 0"
    by (rule py_int_small) simp_all
  then have "py_fmod (9 - 1 / 2 ^ 47 + of_int (- 9)) 360 = round_double (360 - 1 / 2 ^ 47)"
    by (simp add: py_fmod_def Let_def)
  then have "py_fmod (9 - 1 / 2 ^ 47 + of_int (- 9)) 360 = 360"
    by (simp only: round_double_below_360)
  then show ?thesis
    by (simp add: rotate_def almost_nine_sim_def hovering_def)
qed

text \<open>
  Claim C4 says that every operation of the simulated backend preserves the state
  invariant, which includes \<open>0 \<le> yaw < 360\<close>. The code at a failing input: the simulator
  in flight with yaw \<open>9 - 2\<^sup>-\<^sup>4\<^sup>7\<close> satisfies the invariant, and \<^verbatim>\<open>rotate(-9)\<close> leaves it with a
  yaw of exactly \<open>360\<close>, outside the range. The remainder \<^verbatim>\<open>% 360\<close> of the tiny negative sum
  is computed as that sum plus 360, which rounds to 360.
\<close>

theorem rotate_yaw_reaches_360:
  "state_inv (sim_state almost_nine_sim) \<and>
   yaw (sim_state (sim_exec (Rotate (- 9)) almost_nine_sim)) = 360 \<and>
   \<not> state_inv (sim_state (sim_exec (Rotate (- 9)) almost_nine_sim))"
  using almost_nine_rotate
  by (simp add: state_inv_def almost_nine_sim_def hovering_def)

text \<open>
  Witness for C4: the state before the rotation is flying and connected, with its yaw
  inside the range; the state after it is still flying and connected, with yaw 360.
\<close>

theorem rotate_yaw_reaches_360_witness:
  "is_flying (sim_state almost_nine_sim) \<and> is_connected (sim_state almost_nine_sim) \<and>
   0 \<le> yaw (sim_state almost_nine_sim) \<and> yaw (sim_state almost_nine_sim) < 360 \<and>
   is_flying (sim_state (sim_exec (Rotate (- 9)) almost_nine_sim)) \<and>
   is_connected (sim_state (sim_exec (Rotate (- 9)) almost_nine_sim)) \<and>
   yaw (sim_state (sim_exec (Rotate (- 9)) almost_nine_sim)) = 360"
  using rotate_yaw_reaches_360
  by (simp add: state_inv_def rotate_def almost_nine_sim_def hovering_def)

lemma sqrt_2500: "sqrt 2500 = 50"
  by (rule real_sqrt_unique) simp_all

text \<open>
  Claim C5. A tick of the RC integrator on a flying drone, with the latched sticks
  \<open>(lr, fb, ud, yaw_rate)\<close>, the speed setpoint \<open>s\<close> and \<open>interval = 0.05\<close>, always produces
  a next state, given exactly by: \<open>scale = s \<sqdot> interval / 100\<close>;
  \<open>x += (fb \<sqdot> cos yaw - lr \<sqdot> sin yaw) \<sqdot> scale\<close>; \<open>y += (fb \<sqdot> sin yaw + lr \<sqdot> cos yaw) \<sqdot> scale\<close>
  (the old yaw, converted to radians); \<open>z = max(0, z + ud \<sqdot> scale)\<close>;
  \<open>yaw = (yaw + yaw_rate \<sqdot> 0.9 \<sqdot> interval) mod 360\<close>;
  \<open>speed = sqrt(lr\<^sup>2 + fb\<^sup>2 + ud\<^sup>2) \<sqdot> s / 100\<close>; then the battery drains by \<open>0.5\<close> and the
  temperature rises by \<open>0.1\<close> per second for \<open>interval\<close> seconds, the battery floored at 0
  and the temperature capped at 45. Nothing else changes.
\<close>

theorem rc_tick_update:
  assumes "rc_active s" and "is_flying (sim_state s)"
    and "rc_values s = (lr, fb, ud, yaw_rate)"
  shows "\<exists>s'. rc_tick s = Some s' \<and>
    (let st = sim_state s; st' = sim_state s';
         scale = of_int (speed_setpoint s) * 0.05 / 100
     in pos_x st' = pos_x st
          + (of_int fb * cos (radians (yaw st)) - of_int lr * sin (radians (yaw st))) * scale \<and>
        pos_y st' = pos_y st
          + (of_int fb * sin (radians (yaw st)) + of_int lr * cos (radians (yaw st))) * scale \<and>
        pos_z st' = max 0 (pos_z st + of_int ud * scale) \<and>
        yaw st' = py_fmod (yaw st + of_int yaw_rate * 0.9 * 0.05) 360 \<and>
        speed st' = sqrt (of_int (lr ^ 2 + fb ^ 2 + ud ^ 2)) * of_int (speed_setpoint s) / 100 \<and>
        battery st' = max 0 (battery st - 0.05 * 0.5) \<and>
        temperature st' = min 45 (temperature st + 0.05 * 0.1) \<and>
        is_flying st' = is_flying st \<and> is_connected st' = is_connected st \<and>
        flight_time st' = flight_time st \<and> timestamp st' = timestamp st \<and>
        speed_setpoint s' = speed_setpoint s \<and> rc_active s' = rc_active s \<and>
        rc_values s' = rc_values s \<and> flight_start s' = flight_start s)"
  using assms by (simp add: rc_tick_def Let_def rc_interval_def drain_battery_def)

text \<open>
  Witness for C5: from the hover at the origin with heading 0, the forward stick at 50, the
  yaw stick at 10 and the setpoint 50, one tick moves the drone 1.25 cm along x, turns it by
  0.45 degrees, sets the speed to 25 and leaves 99.975 percent battery at 25.005 degrees.
\<close>

theorem rc_tick_update_witness:
  "rc_active flying_sim \<and> is_flying (sim_state flying_sim) \<and>
   rc_values flying_sim = (0, 50, 0, 10) \<and>
   (\<exists>s'. rc_tick flying_sim = Some s' \<and> pos_x (sim_state s') = 1.25 \<and>
     pos_y (sim_state s') = 0 \<and> pos_z (sim_state s') = 80 \<and> yaw (sim_state s') = 0.45 \<and>
     speed (sim_state s') = 25 \<and> battery (sim_state s') = 99.975 \<and>
     temperature (sim_state s') = 25.005)"
  using rc_tick_update [of flying_sim 0 50 0 10]
  by (auto simp: flying_sim_def hovering_def radians_def py_fmod_def py_int_def Let_def
      sqrt_2500)

section \<open>Loading a flight plan\<close>

text \<open>
  Claim C6. \<^verbatim>\<open>load_plan(p)\<close> raises if and only if a plan is loaded and its status is
  \<open>RUNNING\<close>; the error is a \<^verbatim>\<open>RuntimeError\<close> and the executor, with the plan it holds, is
  left as it was. When the call is accepted, the loaded plan is \<open>p\<close> with status \<open>IDLE\<close>,
  \<open>current_index = 0\<close> and every waypoint \<open>PENDING\<close>; its name, loop flag and the other
  waypoint fields are those of \<open>p\<close>.
\<close>

theorem load_plan_contract:
  "(snd (load_plan ap p) \<noteq> None \<longleftrightarrow> (\<exists>cur. plan ap = Some cur \<and> plan_status cur = RUNNING)) \<and>
   (snd (load_plan ap p) \<noteq> None \<longrightarrow>
      snd (load_plan ap p) = Some RuntimeError \<and> fst (load_plan ap p) = ap) \<and>
   (snd (load_plan ap p) = None \<longrightarrow>
      (\<exists>q. plan (fst (load_plan ap p)) = Some q \<and> plan_status q = IDLE \<and> current_index q = 0 \<and>
           (\<forall>wp\<in>set (waypoints q). wp_status wp = PENDING) \<and>
           name q = name p \<and> loop q = loop p \<and>
           map (\<lambda>wp. wp\<lparr>wp_status := PENDING\<rparr>) (waypoints p) = waypoints q))"
  by (cases "plan ap") (auto simp: load_plan_def)

text \<open>
  Witness for C6: loading over a running plan is refused and changes nothing; loading a
  previously flown plan into a fresh executor resets both of its waypoints to \<open>PENDING\<close>.
\<close>

theorem load_plan_contract_witness:
  "snd (load_plan running_autopilot used_plan) = Some RuntimeError \<and>
   fst (load_plan running_autopilot used_plan) = running_autopilot \<and>
   snd (load_plan Autopilot_init used_plan) = None \<and>
   map wp_status (waypoints (the (plan (fst (load_plan Autopilot_init used_plan))))) = [PENDING, PENDING]"
  using load_plan_contract [of running_autopilot used_plan]
    load_plan_contract [of Autopilot_init used_plan]
  by (simp add: load_plan_def running_autopilot_def Autopilot_init_def used_plan_def)


end
